theory Spec2Isabelle
  imports Complex_Main "HOL-Library.Word" "HOL-Library.Log_Nat"
begin

section \<open>Data model\<close>

text \<open>
  The dashboard (\<^verbatim>\<open>streamlit_app.py\<close>) works on pandas data frames that the market-data
  provider returns. A frame has an index and an ordered list of named columns.

  \<^item> A float64 cell is a finite value (a rational number that the operations round to the
    nearest double), an infinity or NaN. The sign of a zero is not tracked.
  \<^item> A timestamp is the integer pandas stores (nanoseconds since the epoch); a datetime
    index or column carries its time zone, \<open>None\<close> when it is naive.
  \<^item> The index is either a datetime index (with its name, \<^verbatim>\<open>'Date'\<close> or
    \<^verbatim>\<open>'Datetime'\<close> in the provider's frames) or, after
    \<^verbatim>\<open>reset_index\<close>, a range index \<open>0..n-1\<close>.
\<close>

datatype f64 = Fin rat | PInf | NInf | NaN

datatype column =
    Stamps "string option" "int list"
  | Floats "f64 list"
  | Ints "64 word list"

datatype index =
    DatetimeIndex "string option" "string option" "int list"
  | RangeIndex nat

record frame =
  index :: index
  columns :: "(string \<times> column) list"

fun index_len :: "index \<Rightarrow> nat" where
  "index_len (DatetimeIndex nm tz ts) = length ts"
| "index_len (RangeIndex n) = n"

fun column_len :: "column \<Rightarrow> nat" where
  "column_len (Stamps tz ts) = length ts"
| "column_len (Floats xs) = length xs"
| "column_len (Ints xs) = length xs"

definition nrows :: "frame \<Rightarrow> nat" where
  "nrows d = index_len (index d)"

text \<open>\<^verbatim>\<open>DataFrame.empty\<close>: true when any axis has length 0.\<close>

definition df_empty :: "frame \<Rightarrow> bool" where
  "df_empty d = (nrows d = 0 \<or> columns d = [])"

text \<open>
  The exceptions of the Python program, as values. \<^verbatim>\<open>KeyboardInterrupt\<close> and
  \<^verbatim>\<open>SystemExit\<close> derive from \<^verbatim>\<open>BaseException\<close> only; every other class here is
  a subclass of \<^verbatim>\<open>Exception\<close>, which is what \<^verbatim>\<open>except Exception\<close> catches.
\<close>

datatype exn =
    Exception string
  | AttributeError string
  | KeyError string
  | TypeError string
  | ValueError string
  | IndexError string
  | OverflowError string
  | KeyboardInterrupt string
  | SystemExit string

fun is_exception :: "exn \<Rightarrow> bool" where
  "is_exception (KeyboardInterrupt m) = False"
| "is_exception (SystemExit m) = False"
| "is_exception e = True"

section \<open>The provider and the page\<close>

text \<open>
  \<^verbatim>\<open>yf.download\<close> is called either with an explicit start/end range or with a period
  token; it returns a frame or raises an exception of any class. What Streamlit is told
  to show is a list of elements, in the order of the calls.
\<close>

datatype request =
    Range string int int string
  | Period string string string

datatype response = Raises exn | Returns frame

datatype trace =
    Candlestick column column column column column
  | Scatter string column column

text \<open>
  A metric carries the numbers its label and delta are formatted from, a download
  button the frame its CSV is written from, the countdown line its number.
\<close>

datatype ui =
    Title string
  | Warning string
  | Error string
  | Metric string "f64 list"
  | MetricInt string "64 word"
  | Subheader string
  | LineChart "(string \<times> column) list"
  | PlotlyChart string "trace list"
  | Dataframe "(string \<times> column) list"
  | DownloadButton string frame
  | SidebarHeader string
  | SidebarSubheader string
  | SidebarCountdown int
  | SidebarMetric string "f64 list"
  | SidebarInfo string

text \<open>
  The environment of one render pass: the provider's answer to the \<open>k\<close>-th download of
  the pass, the clock (\<^verbatim>\<open>datetime.now()\<close> in microseconds) at that download, and
  the \<open>k\<close>-th reading of \<^verbatim>\<open>time.time()\<close> (seconds, a double).
  The session records the requests sent and the page built so far.
\<close>

record env =
  provider :: "nat \<Rightarrow> request \<Rightarrow> response"
  clock :: "nat \<Rightarrow> int"
  time_time :: "nat \<Rightarrow> rat"

record session =
  requests :: "request list"
  page :: "ui list"

definition emit :: "ui \<Rightarrow> session \<Rightarrow> session" where
  "emit e s = s\<lparr>page := page s @ [e]\<rparr>"

definition datetime_now :: "env \<Rightarrow> session \<Rightarrow> int" where
  "datetime_now ev s = clock ev (length (requests s))"

definition timedelta_days :: "int \<Rightarrow> int" where
  "timedelta_days n = n * 86400 * 1000000"

definition yf_download :: "env \<Rightarrow> request \<Rightarrow> session \<Rightarrow> response \<times> session" where
  "yf_download ev rq s =
     (provider ev (length (requests s)) rq, s\<lparr>requests := requests s @ [rq]\<rparr>)"

section \<open>Data Fetcher\<close>

text \<open>
  \<^verbatim>\<open>
  def fetch_stock_data(ticker, period, interval):
      try:
          end_date = datetime.now()
          if period == '1wk':
              start_date = end_date - timedelta(days=7)
              data = yf.download(ticker, start=start_date, end=end_date, interval=interval)
          elif period == '1d':
              data = yf.download(ticker, period='1d', interval=interval)
          else:
              data = yf.download(ticker, period=period, interval=interval)
          if data.empty:
              st.warning(f"No data found for {ticker}. It may be delisted or ...")
              return None
          return data
      except Exception as e:
          st.error(f"Error fetching data for {ticker}: {e}")
          return None
  \<close>
  \<open>fetch_try\<close> is the body of the \<^verbatim>\<open>try\<close>; \<open>fetch_stock_data\<close> adds the handler,
  which catches the subclasses of \<^verbatim>\<open>Exception\<close> and lets every other exception
  pass to the caller.
\<close>

definition fetch_try ::
  "env \<Rightarrow> string \<Rightarrow> string \<Rightarrow> string \<Rightarrow> session \<Rightarrow> (exn + frame option) \<times> session" where
  "fetch_try ev ticker period interval s =
     (let end_date = datetime_now ev s;
          (r, s1) =
            (if period = ''1wk'' then
               (let start_date = end_date - timedelta_days 7
                in yf_download ev (Range ticker start_date end_date interval) s)
             else if period = ''1d'' then yf_download ev (Period ticker ''1d'' interval) s
             else yf_download ev (Period ticker period interval) s)
      in case r of
           Raises e \<Rightarrow> (Inl e, s1)
         | Returns data \<Rightarrow>
             if df_empty data then
               (Inr None,
                emit (Warning (''No data found for '' @ ticker @
                  ''. It may be delisted or there is no price data available.'')) s1)
             else (Inr (Some data), s1))"

fun exn_str :: "exn \<Rightarrow> string" where
  "exn_str (Exception m) = m"
| "exn_str (AttributeError m) = m"
| "exn_str (KeyError m) = m"
| "exn_str (TypeError m) = m"
| "exn_str (ValueError m) = m"
| "exn_str (IndexError m) = m"
| "exn_str (OverflowError m) = m"
| "exn_str (KeyboardInterrupt m) = m"
| "exn_str (SystemExit m) = m"

definition fetch_stock_data ::
  "env \<Rightarrow> string \<Rightarrow> string \<Rightarrow> string \<Rightarrow> session \<Rightarrow> (exn + frame option) \<times> session" where
  "fetch_stock_data ev ticker period interval s =
     (case fetch_try ev ticker period interval s of
        (Inl e, s1) \<Rightarrow>
          if is_exception e
          then (Inr None,
                emit (Error (''Error fetching data for '' @ ticker @ '': '' @ exn_str e)) s1)
          else (Inl e, s1)
      | (Inr r, s1) \<Rightarrow> (Inr r, s1))"

section \<open>Normalizer\<close>

text \<open>Sequencing of steps that may raise: the first exception ends the computation.\<close>

definition bnd :: "exn + 'a \<Rightarrow> ('a \<Rightarrow> exn + 'b) \<Rightarrow> exn + 'b" where
  "bnd m f = (case m of Inl e \<Rightarrow> Inl e | Inr x \<Rightarrow> f x)"

text \<open>
  \<^verbatim>\<open>index.tzinfo\<close> exists on a datetime index only. \<^verbatim>\<open>tz_localize('UTC')\<close> reads
  naive wall-clock values as UTC instants and \<^verbatim>\<open>tz_convert\<close> changes the zone of
  aware instants: neither changes the stored integers, their order or the index name.
\<close>

fun index_tzinfo :: "index \<Rightarrow> exn + string option" where
  "index_tzinfo (DatetimeIndex nm tz ts) = Inr tz"
| "index_tzinfo (RangeIndex n) =
     Inl (AttributeError ''RangeIndex object has no attribute tzinfo'')"

fun tz_localize_utc :: "index \<Rightarrow> exn + index" where
  "tz_localize_utc (DatetimeIndex nm None ts) = Inr (DatetimeIndex nm (Some ''UTC'') ts)"
| "tz_localize_utc (DatetimeIndex nm (Some z) ts) =
     Inl (TypeError ''Already tz-aware, use tz_convert to convert.'')"
| "tz_localize_utc (RangeIndex n) =
     Inl (AttributeError ''RangeIndex object has no attribute tz_localize'')"

fun tz_convert :: "string \<Rightarrow> index \<Rightarrow> exn + index" where
  "tz_convert zone (DatetimeIndex nm (Some z) ts) = Inr (DatetimeIndex nm (Some zone) ts)"
| "tz_convert zone (DatetimeIndex nm None ts) =
     Inl (TypeError ''Cannot convert tz-naive timestamps, use tz_localize to localize'')"
| "tz_convert zone (RangeIndex n) =
     Inl (AttributeError ''RangeIndex object has no attribute tz_convert'')"

definition column_names :: "frame \<Rightarrow> string list" where
  "column_names d = map fst (columns d)"

text \<open>
  \<^verbatim>\<open>reset_index(inplace=True)\<close>: the index becomes the first column, under the index's
  name (\<^verbatim>\<open>'index'\<close>, or \<^verbatim>\<open>'level_0'\<close> when that is taken, for an unnamed index), and
  the frame gets a range index. pandas refuses to insert a label that is already a column.
\<close>

definition index_label :: "string option \<Rightarrow> string list \<Rightarrow> string" where
  "index_label nm names =
     (case nm of Some n \<Rightarrow> n
      | None \<Rightarrow> if ''index'' \<in> set names then ''level_0'' else ''index'')"

fun index_column :: "index \<Rightarrow> column" where
  "index_column (DatetimeIndex nm tz ts) = Stamps tz ts"
| "index_column (RangeIndex n) = Ints (map of_nat [0..<n])"

fun index_name :: "index \<Rightarrow> string option" where
  "index_name (DatetimeIndex nm tz ts) = nm"
| "index_name (RangeIndex n) = None"

definition reset_index :: "frame \<Rightarrow> exn + frame" where
  "reset_index d =
     (let label = index_label (index_name (index d)) (column_names d)
      in if label \<in> set (column_names d)
         then Inl (ValueError (''cannot insert '' @ label @ '', already exists''))
         else Inr \<lparr>index = RangeIndex (nrows d),
                    columns = (label, index_column (index d)) # columns d\<rparr>)"

definition rename_columns :: "string \<Rightarrow> string \<Rightarrow> frame \<Rightarrow> frame" where
  "rename_columns old new d =
     d\<lparr>columns := map (\<lambda>(n, c). (if n = old then new else n, c)) (columns d)\<rparr>"

text \<open>
  \<^verbatim>\<open>
  def process_data(data):
      if data.index.tzinfo is None:
          data.index = data.index.tz_localize('UTC')
      data.index = data.index.tz_convert('US/Eastern')
      data.reset_index(inplace=True)
      data.rename(columns={'Date': 'Datetime'}, inplace=True)
      return data
  \<close>
  The function changes the frame it is given and returns it. \<open>process_data\<close> is the
  function on the frame's value; \<open>process_data_inplace\<close> below is the same statements
  on a store of frame objects.
\<close>

definition process_data :: "frame \<Rightarrow> exn + frame" where
  "process_data data =
     bnd (index_tzinfo (index data)) (\<lambda>tzinfo.
     bnd (if tzinfo = None
          then bnd (tz_localize_utc (index data)) (\<lambda>i. Inr (data\<lparr>index := i\<rparr>))
          else Inr data) (\<lambda>data1.
     bnd (tz_convert ''US/Eastern'' (index data1)) (\<lambda>i.
     bnd (reset_index (data1\<lparr>index := i\<rparr>)) (\<lambda>data2.
     Inr (rename_columns ''Date'' ''Datetime'' data2)))))"

text \<open>
  The store maps the address of a frame object to its current value. Each statement of
  \<^verbatim>\<open>process_data\<close> that assigns to \<^verbatim>\<open>data.index\<close> or works
  \<^verbatim>\<open>inplace=True\<close> writes to the object at the argument's address; the function
  returns that address. An exception leaves the writes made before it.
\<close>

type_synonym store = "nat \<Rightarrow> frame"

definition process_data_inplace :: "nat \<Rightarrow> store \<Rightarrow> (exn + nat) \<times> store" where
  "process_data_inplace data h =
     (case index_tzinfo (index (h data)) of
        Inl e \<Rightarrow> (Inl e, h)
      | Inr tzinfo \<Rightarrow>
          (case (if tzinfo = None
                 then (case tz_localize_utc (index (h data)) of
                         Inl e \<Rightarrow> (Inl e, h)
                       | Inr i \<Rightarrow> (Inr (), h(data := (h data)\<lparr>index := i\<rparr>)))
                 else (Inr (), h)) of
             (Inl e, h1) \<Rightarrow> (Inl e, h1)
           | (Inr u, h1) \<Rightarrow>
               (case tz_convert ''US/Eastern'' (index (h1 data)) of
                  Inl e \<Rightarrow> (Inl e, h1)
                | Inr i \<Rightarrow>
                    (let h2 = h1(data := (h1 data)\<lparr>index := i\<rparr>)
                     in case reset_index (h2 data) of
                          Inl e \<Rightarrow> (Inl e, h2)
                        | Inr d \<Rightarrow>
                            (let h3 = h2(data := d);
                                 h4 = h3(data := rename_columns ''Date'' ''Datetime'' (h3 data))
                             in (Inr data, h4))))))"

section \<open>Indicator Enricher\<close>

text \<open>
  The indicator library \<^verbatim>\<open>ta\<close> is outside the repository: its functions are
  parameters of the model. Each takes the series it is given and the window sizes and
  returns a float64 series. The program calls \<^verbatim>\<open>macd\<close> and \<^verbatim>\<open>macd_signal\<close>
  without window arguments, so the library's defaults apply.
\<close>

record ta =
  sma_indicator :: "column \<Rightarrow> nat \<Rightarrow> f64 list"
  ema_indicator :: "column \<Rightarrow> nat \<Rightarrow> f64 list"
  rsi :: "column \<Rightarrow> nat \<Rightarrow> f64 list"
  macd :: "column \<Rightarrow> nat \<Rightarrow> nat \<Rightarrow> f64 list"
  macd_signal :: "column \<Rightarrow> nat \<Rightarrow> nat \<Rightarrow> nat \<Rightarrow> f64 list"

text \<open>
  Modelled from the spec: the default windows of \<^verbatim>\<open>ta.trend.macd\<close> and
  \<^verbatim>\<open>ta.trend.macd_signal\<close> (slow 26, fast 12, signal 9) are declared in the library,
  not under src/.
\<close>

definition window_slow :: nat where "window_slow = 26"
definition window_fast :: nat where "window_fast = 12"
definition window_sign :: nat where "window_sign = 9"

text \<open>\<^verbatim>\<open>data[k]\<close>: the column labelled \<open>k\<close>, or KeyError.\<close>

definition getitem :: "frame \<Rightarrow> string \<Rightarrow> exn + column" where
  "getitem d k = (case map_of (columns d) k of None \<Rightarrow> Inl (KeyError k) | Some c \<Rightarrow> Inr c)"

text \<open>
  \<^verbatim>\<open>data[k] = series\<close>: the series is aligned with the frame's rows (rows the series
  lacks become NaN, rows it has in excess are dropped), then it replaces the column
  labelled \<open>k\<close> where it stands, or is appended as the last column.
\<close>

definition align :: "nat \<Rightarrow> f64 list \<Rightarrow> f64 list" where
  "align n xs = take n xs @ replicate (n - length xs) NaN"

fun setitem :: "string \<Rightarrow> column \<Rightarrow> (string \<times> column) list \<Rightarrow> (string \<times> column) list" where
  "setitem k v [] = [(k, v)]"
| "setitem k v ((k', v') # cs) = (if k = k' then (k, v) # cs else (k', v') # setitem k v cs)"

definition set_column :: "frame \<Rightarrow> string \<Rightarrow> f64 list \<Rightarrow> frame" where
  "set_column d k xs = d\<lparr>columns := setitem k (Floats (align (nrows d) xs)) (columns d)\<rparr>"

text \<open>
  \<^verbatim>\<open>
  def add_technical_indicators(data):
      data['SMA_20'] = ta.trend.sma_indicator(data['Close'], window=20)
      data['EMA_20'] = ta.trend.ema_indicator(data['Close'], window=20)
      return data

  def add_more_indicators(data):
      data['RSI'] = ta.momentum.rsi(data['Close'], window=14)
      data['MACD'] = ta.trend.macd(data['Close'])
      data['MACD_Signal'] = ta.trend.macd_signal(data['Close'])
      return data
  \<close>
\<close>

definition add_technical_indicators :: "ta \<Rightarrow> frame \<Rightarrow> exn + frame" where
  "add_technical_indicators lib data =
     bnd (getitem data ''Close'') (\<lambda>close.
     let data1 = set_column data ''SMA_20'' (sma_indicator lib close 20) in
     bnd (getitem data1 ''Close'') (\<lambda>close1.
     let data2 = set_column data1 ''EMA_20'' (ema_indicator lib close1 20) in
     Inr data2))"

definition add_more_indicators :: "ta \<Rightarrow> frame \<Rightarrow> exn + frame" where
  "add_more_indicators lib data =
     bnd (getitem data ''Close'') (\<lambda>close.
     let data1 = set_column data ''RSI'' (rsi lib close 14) in
     bnd (getitem data1 ''Close'') (\<lambda>close1.
     let data2 = set_column data1 ''MACD'' (macd lib close1 window_slow window_fast) in
     bnd (getitem data2 ''Close'') (\<lambda>close2.
     let data3 = set_column data2 ''MACD_Signal''
                   (macd_signal lib close2 window_slow window_fast window_sign) in
     Inr data3)))"

text \<open>The Indicator Enricher of the pipeline: both functions, in the order of the page.\<close>

definition enrich :: "ta \<Rightarrow> frame \<Rightarrow> exn + frame" where
  "enrich lib data = bnd (add_technical_indicators lib data) (add_more_indicators lib)"

section \<open>float64 and int64 arithmetic\<close>

text \<open>
  The prices are IEEE 754 binary64 numbers: every operation returns the double nearest
  to the exact result (ties to the even significand), an infinity on overflow, and
  follows the IEEE rules for infinities and NaN. numpy's float64 division by zero
  returns an infinity or NaN (with a warning), it does not raise.

  \<open>f64_exponent x\<close> is the \<open>e\<close> with \<open>2^e \<le> |x| < 2^(e+1)\<close>; the spacing of the doubles
  around \<open>x\<close> is \<open>2^(e-52)\<close>, and \<open>2^(-1074)\<close> for the subnormal numbers.
\<close>

definition round_even :: "rat \<Rightarrow> int" where
  "round_even x =
     (let f = \<lfloor>x\<rfloor>; d = x - of_int f
      in if d < 1/2 then f else if 1/2 < d then f + 1 else if even f then f else f + 1)"

definition pow2 :: "int \<Rightarrow> rat" where
  "pow2 e = (if 0 \<le> e then 2 ^ nat e else 1 / 2 ^ nat (- e))"

definition f64_exponent :: "rat \<Rightarrow> int" where
  "f64_exponent x =
     (let (p, q) = quotient_of \<bar>x\<bar>; d = bitlen p - bitlen q
      in if pow2 d \<le> \<bar>x\<bar> then d else d - 1)"

definition f64_round :: "rat \<Rightarrow> f64" where
  "f64_round x =
     (if x = 0 then Fin 0
      else let e = max (f64_exponent x) (- 1022);
               ulp = pow2 (e - 52);
               y = of_int (round_even (x / ulp)) * ulp
           in if pow2 1024 \<le> \<bar>y\<bar> then (if 0 < x then PInf else NInf) else Fin y)"

fun f64_neg :: "f64 \<Rightarrow> f64" where
  "f64_neg (Fin a) = Fin (- a)"
| "f64_neg PInf = NInf"
| "f64_neg NInf = PInf"
| "f64_neg NaN = NaN"

fun f64_sub :: "f64 \<Rightarrow> f64 \<Rightarrow> f64" where
  "f64_sub NaN y = NaN"
| "f64_sub x NaN = NaN"
| "f64_sub (Fin a) (Fin b) = f64_round (a - b)"
| "f64_sub PInf PInf = NaN"
| "f64_sub NInf NInf = NaN"
| "f64_sub PInf y = PInf"
| "f64_sub NInf y = NInf"
| "f64_sub x PInf = NInf"
| "f64_sub x NInf = PInf"

fun f64_mul :: "f64 \<Rightarrow> f64 \<Rightarrow> f64" where
  "f64_mul NaN y = NaN"
| "f64_mul x NaN = NaN"
| "f64_mul (Fin a) (Fin b) = f64_round (a * b)"
| "f64_mul (Fin a) y = (if a = 0 then NaN else if 0 < a then y else f64_neg y)"
| "f64_mul x (Fin b) = (if b = 0 then NaN else if 0 < b then x else f64_neg x)"
| "f64_mul PInf y = y"
| "f64_mul NInf y = f64_neg y"

fun f64_div :: "f64 \<Rightarrow> f64 \<Rightarrow> f64" where
  "f64_div NaN y = NaN"
| "f64_div x NaN = NaN"
| "f64_div (Fin a) (Fin b) =
     (if b = 0 then (if a = 0 then NaN else if 0 < a then PInf else NInf)
      else f64_round (a / b))"
| "f64_div (Fin a) y = Fin 0"
| "f64_div x (Fin b) = (if 0 \<le> b then x else f64_neg x)"
| "f64_div x y = NaN"

text \<open>The order of the float64 values that are not NaN.\<close>

fun f64_less :: "f64 \<Rightarrow> f64 \<Rightarrow> bool" where
  "f64_less (Fin a) (Fin b) = (a < b)"
| "f64_less NInf (Fin b) = True"
| "f64_less NInf PInf = True"
| "f64_less (Fin a) PInf = True"
| "f64_less x y = False"

definition f64_max :: "f64 \<Rightarrow> f64 \<Rightarrow> f64" where
  "f64_max x y = (if f64_less x y then y else x)"

definition f64_min :: "f64 \<Rightarrow> f64 \<Rightarrow> f64" where
  "f64_min x y = (if f64_less y x then y else x)"

text \<open>
  \<^verbatim>\<open>Series.max()\<close> and \<^verbatim>\<open>Series.min()\<close> skip NaN; the result is NaN when nothing is
  left. \<^verbatim>\<open>Series.sum()\<close> of an int64 column is an int64: it wraps around.
\<close>

definition series_max :: "f64 list \<Rightarrow> f64" where
  "series_max xs =
     (case filter (\<lambda>x. x \<noteq> NaN) xs of [] \<Rightarrow> NaN | y # ys \<Rightarrow> foldl f64_max y ys)"

definition series_min :: "f64 list \<Rightarrow> f64" where
  "series_min xs =
     (case filter (\<lambda>x. x \<noteq> NaN) xs of [] \<Rightarrow> NaN | y # ys \<Rightarrow> foldl f64_min y ys)"

definition series_sum :: "64 word list \<Rightarrow> 64 word" where
  "series_sum xs = foldl (+) 0 xs"

section \<open>Metrics Calculator\<close>

text \<open>
  \<^verbatim>\<open>series.iloc[i]\<close>: by position, a negative position counting from the end, IndexError
  out of range.
\<close>

definition iloc :: "'a list \<Rightarrow> int \<Rightarrow> exn + 'a" where
  "iloc xs i =
     (if 0 \<le> i \<and> i < int (length xs) then Inr (xs ! nat i)
      else if i < 0 \<and> - int (length xs) \<le> i then Inr (xs ! nat (int (length xs) + i))
      else Inl (IndexError ''single positional indexer is out-of-bounds''))"

text \<open>
  The provider's frames hold the prices as float64 columns and the volume as an int64
  column. A column of another type is outside this model: where the program would go on
  with that type, the model stops with \<open>TypeError\<close>.
\<close>

definition float_series :: "frame \<Rightarrow> string \<Rightarrow> exn + f64 list" where
  "float_series d k =
     bnd (getitem d k) (\<lambda>c. case c of Floats xs \<Rightarrow> Inr xs
                              | _ \<Rightarrow> Inl (TypeError (k @ '' is not a float64 column'')))"

definition int_series :: "frame \<Rightarrow> string \<Rightarrow> exn + 64 word list" where
  "int_series d k =
     bnd (getitem d k) (\<lambda>c. case c of Ints xs \<Rightarrow> Inr xs
                              | _ \<Rightarrow> Inl (TypeError (k @ '' is not an int64 column'')))"

text \<open>
  \<^verbatim>\<open>
  def calculate_metrics(data):
      last_close = data['Close'].iloc[-1]
      prev_close = data['Close'].iloc[0]
      change = last_close - prev_close
      pct_change = (change / prev_close) * 100
      high = data['High'].max()
      low = data['Low'].min()
      volume = data['Volume'].sum()
      return last_close, change, pct_change, high, low, volume
  \<close>
\<close>

definition calculate_metrics :: "frame \<Rightarrow> exn + (f64 \<times> f64 \<times> f64 \<times> f64 \<times> f64 \<times> 64 word)" where
  "calculate_metrics data =
     bnd (float_series data ''Close'') (\<lambda>close.
     bnd (iloc close (- 1)) (\<lambda>last_close.
     bnd (float_series data ''Close'') (\<lambda>close1.
     bnd (iloc close1 0) (\<lambda>prev_close.
     let change = f64_sub last_close prev_close;
         pct_change = f64_mul (f64_div change prev_close) (Fin 100) in
     bnd (float_series data ''High'') (\<lambda>highs.
     let high = series_max highs in
     bnd (float_series data ''Low'') (\<lambda>lows.
     let low = series_min lows in
     bnd (int_series data ''Volume'') (\<lambda>volumes.
     let volume = series_sum volumes in
     Inr (last_close, change, pct_change, high, low, volume))))))))"

section \<open>Presentation Layer\<close>

text \<open>
  \<^verbatim>\<open>
  refresh_interval = 20
  st_autorefresh(interval=refresh_interval * 1000, key="datarefresh")
  last_refresh_time = time.time()
  time_since_refresh = int(time.time() - last_refresh_time)
  countdown = refresh_interval - time_since_refresh
  st.sidebar.write(f"Auto-refresh in {countdown} seconds")
  \<close>
  \<^verbatim>\<open>int\<close> of a float truncates towards zero and raises on an infinity or NaN.
  \<open>countdown t0 t1\<close> is the value of \<^verbatim>\<open>countdown\<close> when the first reading of the
  clock is \<open>t0\<close> and the second \<open>t1\<close>.
\<close>

definition refresh_interval :: int where
  "refresh_interval = 20"

fun py_int :: "f64 \<Rightarrow> exn + int" where
  "py_int (Fin x) = Inr (if 0 \<le> x then \<lfloor>x\<rfloor> else \<lceil>x\<rceil>)"
| "py_int NaN = Inl (ValueError ''cannot convert float NaN to integer'')"
| "py_int x = Inl (OverflowError ''cannot convert float infinity to integer'')"

definition time_since_refresh :: "rat \<Rightarrow> rat \<Rightarrow> exn + int" where
  "time_since_refresh t0 t1 =
     (let last_refresh_time = Fin t0 in py_int (f64_sub (Fin t1) last_refresh_time))"

definition countdown :: "rat \<Rightarrow> rat \<Rightarrow> exn + int" where
  "countdown t0 t1 = bnd (time_since_refresh t0 t1) (\<lambda>t. Inr (refresh_interval - t))"

text \<open>The watchlist, in the order of the dictionary, and the user's selections.\<close>

definition stock_names :: "(string \<times> string) list" where
  "stock_names =
     [(''AAPL'', ''Apple Inc.''),
      (''GOOGL'', ''Alphabet Inc.''),
      (''MSFT'', ''Microsoft Corporation''),
      (''AMZN'', ''Amazon.com Inc.''),
      (''TSLA'', ''Tesla Inc.''),
      (''NFLX'', ''Netflix Inc.''),
      (''NVDA'', ''NVIDIA Corporation''),
      (''META'', ''Meta Platforms, Inc.''),
      (''BABA'', ''Alibaba Group Holding Ltd.''),
      (''ADBE'', ''Adobe Inc.''),
      (''INTC'', ''Intel Corporation''),
      (''RELIANCE.NS'', ''Reliance Industries Limited''),
      (''TCS.NS'', ''Tata Consultancy Services'')]"

definition stock_name :: "string \<Rightarrow> exn + string" where
  "stock_name k = (case map_of stock_names k of None \<Rightarrow> Inl (KeyError k) | Some v \<Rightarrow> Inr v)"

record selection =
  ticker :: string
  time_period :: string
  interval :: string
  chart_type :: string
  indicators :: "string list"
  compare_ticker :: string

text \<open>
  A statement of the page either raises or yields a value, and changes the session.
  \<open>seq\<close> runs two statements in order (an exception skips the rest), \<open>lift\<close> is a
  computation without effect on the session, \<open>st\<close> a call that adds an element to the
  page.
\<close>

type_synonym 'a action = "session \<Rightarrow> (exn + 'a) \<times> session"

definition seq :: "'a action \<Rightarrow> ('a \<Rightarrow> 'b action) \<Rightarrow> 'b action" where
  "seq m f s = (case m s of (Inl e, s1) \<Rightarrow> (Inl e, s1) | (Inr x, s1) \<Rightarrow> f x s1)"

definition lift :: "exn + 'a \<Rightarrow> 'a action" where
  "lift r s = (r, s)"

definition st :: "ui \<Rightarrow> unit action" where
  "st e s = (Inr (), emit e s)"

text \<open>\<^verbatim>\<open>str.upper()\<close> on the ASCII letters of a period token.\<close>

definition upper :: "string \<Rightarrow> string" where
  "upper w = map (\<lambda>c. let n = (of_char c :: nat)
                       in if 97 \<le> n \<and> n \<le> 122 then char_of (n - 32) else c) w"

text \<open>\<^verbatim>\<open>data[[k1, k2, ...]]\<close>: the listed columns, KeyError when one is missing.\<close>

fun select :: "frame \<Rightarrow> string list \<Rightarrow> exn + (string \<times> column) list" where
  "select d [] = Inr []"
| "select d (k # ks) = bnd (getitem d k) (\<lambda>c. bnd (select d ks) (\<lambda>cs. Inr ((k, c) # cs)))"

text \<open>
  \<^verbatim>\<open>
      fig = go.Figure()
      if chart_type == 'Candlestick':
          fig.add_trace(go.Candlestick(x=data['Datetime'], open=data['Open'],
              high=data['High'], low=data['Low'], close=data['Close']))
      else:
          fig.add_trace(go.Scatter(x=data['Datetime'], y=data['Close'], mode='lines',
              name='Close Price'))
      for indicator in indicators:
          if indicator == 'SMA 20':
              fig.add_trace(go.Scatter(x=data['Datetime'], y=data['SMA_20'], name='SMA 20'))
          elif indicator == 'EMA 20':
              fig.add_trace(go.Scatter(x=data['Datetime'], y=data['EMA_20'], name='EMA 20'))
          elif indicator == 'RSI':
              st.subheader('RSI Indicator')
              st.line_chart(data['RSI'])
          elif indicator == 'MACD':
              st.subheader('MACD Indicator')
              st.line_chart(data[['MACD', 'MACD_Signal']])
  \<close>
\<close>

definition price_trace :: "string \<Rightarrow> frame \<Rightarrow> exn + trace" where
  "price_trace chart data =
     (if chart = ''Candlestick'' then
        bnd (getitem data ''Datetime'') (\<lambda>x.
        bnd (getitem data ''Open'') (\<lambda>opn.
        bnd (getitem data ''High'') (\<lambda>high.
        bnd (getitem data ''Low'') (\<lambda>low.
        bnd (getitem data ''Close'') (\<lambda>close.
        Inr (Candlestick x opn high low close))))))
      else
        bnd (getitem data ''Datetime'') (\<lambda>x.
        bnd (getitem data ''Close'') (\<lambda>y.
        Inr (Scatter ''Close Price'' x y))))"

definition indicator_step :: "frame \<Rightarrow> string \<Rightarrow> trace list \<Rightarrow> (trace list) action" where
  "indicator_step data indicator fig =
     (if indicator = ''SMA 20'' then
        lift (bnd (getitem data ''Datetime'') (\<lambda>x.
              bnd (getitem data ''SMA_20'') (\<lambda>y.
              Inr (fig @ [Scatter ''SMA 20'' x y]))))
      else if indicator = ''EMA 20'' then
        lift (bnd (getitem data ''Datetime'') (\<lambda>x.
              bnd (getitem data ''EMA_20'') (\<lambda>y.
              Inr (fig @ [Scatter ''EMA 20'' x y]))))
      else if indicator = ''RSI'' then
        seq (st (Subheader ''RSI Indicator'')) (\<lambda>u.
        seq (lift (getitem data ''RSI'')) (\<lambda>c.
        seq (st (LineChart [(''RSI'', c)])) (\<lambda>u.
        lift (Inr fig))))
      else if indicator = ''MACD'' then
        seq (st (Subheader ''MACD Indicator'')) (\<lambda>u.
        seq (lift (select data [''MACD'', ''MACD_Signal''])) (\<lambda>cs.
        seq (st (LineChart cs)) (\<lambda>u.
        lift (Inr fig))))
      else lift (Inr fig))"

fun indicator_loop :: "frame \<Rightarrow> string list \<Rightarrow> trace list \<Rightarrow> (trace list) action" where
  "indicator_loop data [] fig = lift (Inr fig)"
| "indicator_loop data (i # rest) fig =
     seq (indicator_step data i fig) (indicator_loop data rest)"

text \<open>
  The main content area (lines 106 to 165 of the script): the value is what the variable
  \<^verbatim>\<open>data\<close> holds afterwards, \<open>None\<close> when the fetch gave nothing.
  \<^verbatim>\<open>
  data = fetch_stock_data(ticker, time_period, interval)
  if data is not None:
      data = process_data(data)
      data = add_technical_indicators(data)
      data = add_more_indicators(data)
      last_close, change, pct_change, high, low, volume = calculate_metrics(data)
      st.metric(label=f"{stock_names[ticker]} Last Price", value=f"{last_close:.2f} USD",
                delta=f"{change:.2f} ({pct_change:.2f}%)")
      coll, col2, col3 = st.columns(3)
      coll.metric("High", f"{high:.2f} USD")
      col2.metric("Low", f"{low:.2f} USD")
      col3.metric("Volume", f"{volume:,}")
      ... (the figure, see above)
      fig.update_layout(title=f'{stock_names[ticker]} {time_period.upper()} Chart', ...)
      st.plotly_chart(fig, use_container_width=True)
      st.subheader('Historical Data')
      st.dataframe(data[['Datetime', 'Open', 'High', 'Low', 'Close', 'Volume']])
      st.subheader('Technical Indicators')
      st.dataframe(data[['Datetime', 'SMA_20', 'EMA_20', 'RSI', 'MACD', 'MACD_Signal']])
      st.download_button(label="Download Data as CSV", data=data.to_csv().encode('utf-8'),
                         file_name=f'{ticker}_data.csv', mime='text/csv')
  \<close>
\<close>

definition main_dashboard :: "ta \<Rightarrow> selection \<Rightarrow> frame \<Rightarrow> (frame option) action" where
  "main_dashboard lib sel data0 =
     seq (lift (process_data data0)) (\<lambda>data1.
     seq (lift (add_technical_indicators lib data1)) (\<lambda>data2.
     seq (lift (add_more_indicators lib data2)) (\<lambda>data.
     seq (lift (calculate_metrics data)) (\<lambda>(last_close, change, pct_change, high, low, volume).
     seq (lift (stock_name (ticker sel))) (\<lambda>name.
     seq (st (Metric (name @ '' Last Price'') [last_close, change, pct_change])) (\<lambda>u.
     seq (st (Metric ''High'' [high])) (\<lambda>u.
     seq (st (Metric ''Low'' [low])) (\<lambda>u.
     seq (st (MetricInt ''Volume'' volume)) (\<lambda>u.
     seq (lift (price_trace (chart_type sel) data)) (\<lambda>tr.
     seq (indicator_loop data (indicators sel) [tr]) (\<lambda>fig.
     seq (lift (stock_name (ticker sel))) (\<lambda>name1.
     seq (st (PlotlyChart (name1 @ '' '' @ upper (time_period sel) @ '' Chart'') fig)) (\<lambda>u.
     seq (st (Subheader ''Historical Data'')) (\<lambda>u.
     seq (lift (select data [''Datetime'', ''Open'', ''High'', ''Low'', ''Close'', ''Volume''])) (\<lambda>cs.
     seq (st (Dataframe cs)) (\<lambda>u.
     seq (st (Subheader ''Technical Indicators'')) (\<lambda>u.
     seq (lift (select data [''Datetime'', ''SMA_20'', ''EMA_20'', ''RSI'', ''MACD'', ''MACD_Signal''])) (\<lambda>cs1.
     seq (st (Dataframe cs1)) (\<lambda>u.
     seq (st (DownloadButton (ticker sel @ ''_data.csv'') data)) (\<lambda>u.
     lift (Inr (Some data))))))))))))))))))))))"

definition main_content :: "env \<Rightarrow> ta \<Rightarrow> selection \<Rightarrow> (frame option) action" where
  "main_content ev lib sel =
     seq (fetch_stock_data ev (ticker sel) (time_period sel) (interval sel)) (\<lambda>data.
     case data of
       None \<Rightarrow> lift (Inr None)
     | Some data0 \<Rightarrow> main_dashboard lib sel data0)"

text \<open>
  The comparison chart (lines 167 to 178). \<^verbatim>\<open>data\<close> is the variable of the main
  content area; subscripting it when it is \<^verbatim>\<open>None\<close> raises TypeError.
  \<^verbatim>\<open>
  compare_data = fetch_stock_data(compare_ticker, time_period, interval)
  if compare_data is not None:
      compare_data = process_data(compare_data)
      fig_compare = go.Figure()
      fig_compare.add_trace(go.Scatter(x=data['Datetime'], y=data['Close'],
                                       name=f"{ticker} Close Price"))
      fig_compare.add_trace(go.Scatter(x=compare_data['Datetime'], y=compare_data['Close'],
                                       name=f"{compare_ticker} Close Price"))
      fig_compare.update_layout(
          title=f'Comparison of {stock_names[ticker]} and {stock_names[compare_ticker]}', ...)
      st.plotly_chart(fig_compare, use_container_width=True)
  \<close>
\<close>

fun subscript :: "frame option \<Rightarrow> string \<Rightarrow> exn + column" where
  "subscript None k = Inl (TypeError ''NoneType object is not subscriptable'')"
| "subscript (Some d) k = getitem d k"

definition comparison_chart :: "selection \<Rightarrow> frame option \<Rightarrow> frame \<Rightarrow> unit action" where
  "comparison_chart sel data compare_data0 =
     seq (lift (process_data compare_data0)) (\<lambda>compare_data.
     seq (lift (subscript data ''Datetime'')) (\<lambda>x.
     seq (lift (subscript data ''Close'')) (\<lambda>y.
     seq (lift (getitem compare_data ''Datetime'')) (\<lambda>x1.
     seq (lift (getitem compare_data ''Close'')) (\<lambda>y1.
     seq (lift (stock_name (ticker sel))) (\<lambda>name.
     seq (lift (stock_name (compare_ticker sel))) (\<lambda>name1.
     st (PlotlyChart (''Comparison of '' @ name @ '' and '' @ name1)
           [Scatter (ticker sel @ '' Close Price'') x y,
            Scatter (compare_ticker sel @ '' Close Price'') x1 y1]))))))))"

definition comparison :: "env \<Rightarrow> selection \<Rightarrow> frame option \<Rightarrow> unit action" where
  "comparison ev sel data =
     seq (fetch_stock_data ev (compare_ticker sel) (time_period sel) (interval sel))
       (\<lambda>compare_data.
          case compare_data of
            None \<Rightarrow> lift (Inr ())
          | Some compare_data0 \<Rightarrow> comparison_chart sel data compare_data0)"

text \<open>
  The watchlist in the sidebar (lines 180 to 189).
  \<^verbatim>\<open>
  st.sidebar.header('Real-Time Stock Prices')
  for symbol in stock_names.keys():
      real_time_data = fetch_stock_data(symbol, '1d', '1m')
      if real_time_data is not None and not real_time_data.empty:
          real_time_data = process_data(real_time_data)
          last_price = real_time_data['Close'].iloc[-1]
          change = last_price - real_time_data['Open'].iloc[0]
          pct_change = (change / real_time_data['Open'].iloc[0]) * 100
          st.sidebar.metric(f"{stock_names[symbol]}", f"{last_price:.2f} USD",
                            f"{change:.2f} ({pct_change:.2f}%)")
  \<close>
\<close>

definition watch_quote :: "string \<Rightarrow> frame \<Rightarrow> unit action" where
  "watch_quote symbol real_time_data0 =
     seq (lift (process_data real_time_data0)) (\<lambda>real_time_data.
     seq (lift (bnd (float_series real_time_data ''Close'') (\<lambda>c. iloc c (- 1)))) (\<lambda>last_price.
     seq (lift (bnd (float_series real_time_data ''Open'') (\<lambda>c. iloc c 0))) (\<lambda>open0.
     let change = f64_sub last_price open0 in
     seq (lift (bnd (float_series real_time_data ''Open'') (\<lambda>c. iloc c 0))) (\<lambda>open1.
     let pct_change = f64_mul (f64_div change open1) (Fin 100) in
     seq (lift (stock_name symbol)) (\<lambda>name.
     st (SidebarMetric name [last_price, change, pct_change]))))))"

definition watch_symbol :: "env \<Rightarrow> string \<Rightarrow> unit action" where
  "watch_symbol ev symbol =
     seq (fetch_stock_data ev symbol ''1d'' ''1m'') (\<lambda>real_time_data.
     case real_time_data of
       None \<Rightarrow> lift (Inr ())
     | Some d \<Rightarrow> if \<not> df_empty d then watch_quote symbol d else lift (Inr ()))"

fun watchlist :: "env \<Rightarrow> string list \<Rightarrow> unit action" where
  "watchlist ev [] = lift (Inr ())"
| "watchlist ev (symbol # rest) = seq (watch_symbol ev symbol) (\<lambda>u. watchlist ev rest)"

text \<open>
  One run of the script from top to bottom. The widgets of the sidebar return the
  selections, which are the argument here. An exception that no statement catches ends
  the run: Streamlit shows it and executes nothing that follows.
\<close>

definition render_pass :: "env \<Rightarrow> ta \<Rightarrow> selection \<Rightarrow> unit action" where
  "render_pass ev lib sel =
     seq (st (Title ''Real Time Stock Dashboard'')) (\<lambda>u.
     seq (st (SidebarHeader ''Chart Parameters'')) (\<lambda>u.
     seq (st (SidebarSubheader ''Compare Stocks'')) (\<lambda>u.
     seq (lift (countdown (time_time ev 0) (time_time ev 1))) (\<lambda>c.
     seq (st (SidebarCountdown c)) (\<lambda>u.
     seq (main_content ev lib sel) (\<lambda>data.
     seq (comparison ev sel data) (\<lambda>u.
     seq (st (SidebarHeader ''Real-Time Stock Prices'')) (\<lambda>u.
     seq (watchlist ev (map fst stock_names)) (\<lambda>u.
     seq (st (SidebarSubheader ''About'')) (\<lambda>u.
     st (SidebarInfo ''This dashboard provides stock data and technical indicators for various time periods. Use the sidebar to customize your view.'')))))))))))"

definition start :: session where
  "start = \<lparr>requests = [], page = []\<rparr>"

section \<open>Sample data\<close>

text \<open>
  A two-row intraday frame as the provider returns it (a naive datetime index named
  \<^verbatim>\<open>Datetime\<close>, one minute apart on 2 January 2024), the same rows with the index
  already in US/Eastern, and the frame the Normalizer makes of either.
\<close>

definition sample_columns :: "(string \<times> column) list" where
  "sample_columns =
     [(''Open'', Floats [Fin 100, Fin 101]),
      (''High'', Floats [Fin 102, Fin 108]),
      (''Low'', Floats [Fin 99, Fin 100]),
      (''Close'', Floats [Fin 100, Fin 107]),
      (''Volume'', Ints [1500, 2500])]"

definition raw_frame :: frame where
  "raw_frame =
     \<lparr>index = DatetimeIndex (Some ''Datetime'') None
                [1704205800000000000, 1704205860000000000],
      columns = sample_columns\<rparr>"

definition eastern_frame :: frame where
  "eastern_frame =
     \<lparr>index = DatetimeIndex (Some ''Datetime'') (Some ''US/Eastern'')
                [1704205800000000000, 1704205860000000000],
      columns = sample_columns\<rparr>"

definition normalized_frame :: frame where
  "normalized_frame =
     \<lparr>index = RangeIndex 2,
      columns = (''Datetime'', Stamps (Some ''US/Eastern'')
                   [1704205800000000000, 1704205860000000000]) # sample_columns\<rparr>"

text \<open>
  The property the Normalizer's output is claimed to have: its timestamp column is in the
  US/Eastern zone and ascending.
\<close>

definition eastern_ascending :: "column \<Rightarrow> bool" where
  "eastern_ascending c =
     (case c of Stamps tz ts \<Rightarrow> tz = Some ''US/Eastern'' \<and> sorted ts
      | Floats xs \<Rightarrow> False
      | Ints xs \<Rightarrow> False)"

text \<open>
  The names of the five indicator columns, and a stand-in for the indicator library on
  short series: with fewer rows than the window every value is still undefined (NaN).
\<close>

definition indicator_names :: "string list" where
  "indicator_names = [''SMA_20'', ''EMA_20'', ''RSI'', ''MACD'', ''MACD_Signal'']"

definition sample_ta :: ta where
  "sample_ta =
     \<lparr>sma_indicator = (\<lambda>c w. replicate (column_len c) NaN),
      ema_indicator = (\<lambda>c w. replicate (column_len c) NaN),
      rsi = (\<lambda>c w. replicate (column_len c) NaN),
      macd = (\<lambda>c slow fast. replicate (column_len c) NaN),
      macd_signal = (\<lambda>c slow fast sign. replicate (column_len c) NaN)\<rparr>"

text \<open>
  The five-row daily series of the specification's first scenario (closes 100, 102, 101,
  105, 107), already normalized.
\<close>

definition five_rows :: frame where
  "five_rows =
     \<lparr>index = RangeIndex 5,
      columns =
        [(''Datetime'', Stamps (Some ''US/Eastern'')
            [1704171600000000000, 1704258000000000000, 1704344400000000000,
             1704430800000000000, 1704690000000000000]),
         (''Open'', Floats [Fin 99, Fin 100, Fin 102, Fin 101, Fin 105]),
         (''High'', Floats [Fin 101, Fin 103, Fin 102, Fin 106, Fin 108]),
         (''Low'', Floats [Fin 98, Fin 100, Fin 100, Fin 101, Fin 104]),
         (''Close'', Floats [Fin 100, Fin 102, Fin 101, Fin 105, Fin 107]),
         (''Volume'', Ints [1000, 1100, 1200, 1300, 1400])]\<rparr>"

text \<open>
  A render pass in which the download for the primary ticker fails and every other
  download returns the two-row sample frame, with the selections of the user.
\<close>

definition sample_selection :: selection where
  "sample_selection =
     \<lparr>ticker = ''AAPL'', time_period = ''1d'', interval = ''1m'',
      chart_type = ''Candlestick'', indicators = [''SMA 20'', ''RSI''],
      compare_ticker = ''GOOGL''\<rparr>"

definition primary_fails :: env where
  "primary_fails =
     \<lparr>provider = (\<lambda>k rq. if k = 0 then Raises (Exception ''Connection timed out'')
                           else Returns raw_frame),
      clock = (\<lambda>k. 1704205900000000),
      time_time = (\<lambda>k. 1704205900)\<rparr>"

text \<open>
  An empty frame as the provider returns it for a symbol without data, a render pass in
  which the provider has no data for the primary ticker, and one in which the first
  download is interrupted from the keyboard.
\<close>

definition empty_frame :: frame where
  "empty_frame =
     \<lparr>index = DatetimeIndex (Some ''Datetime'') None [],
      columns = [(''Open'', Floats []), (''High'', Floats []), (''Low'', Floats []),
                 (''Close'', Floats []), (''Volume'', Ints [])]\<rparr>"

definition primary_empty :: env where
  "primary_empty =
     \<lparr>provider = (\<lambda>k rq. if k = 0 then Returns empty_frame else Returns raw_frame),
      clock = (\<lambda>k. 1704205900000000),
      time_time = (\<lambda>k. 1704205900)\<rparr>"

definition interrupted :: env where
  "interrupted =
     \<lparr>provider = (\<lambda>k rq. Raises (KeyboardInterrupt [])),
      clock = (\<lambda>k. 1704205900000000),
      time_time = (\<lambda>k. 1704205900)\<rparr>"

text \<open>
  A render pass in which the download for the comparison ticker fails and every other
  download returns the two-row sample frame; the enriched sample frame of that pass, and
  the display name of a watchlist symbol.
\<close>

definition comparison_fails :: env where
  "comparison_fails =
     \<lparr>provider = (\<lambda>k rq. if k = 1 then Raises (Exception ''Connection timed out'')
                           else Returns raw_frame),
      clock = (\<lambda>k. 1704205900000000),
      time_time = (\<lambda>k. 1704205900)\<rparr>"

definition stamps2 :: column where
  "stamps2 = Stamps (Some ''US/Eastern'') [1704205800000000000, 1704205860000000000]"

definition indicator_columns :: "(string \<times> column) list" where
  "indicator_columns =
     [(''SMA_20'', Floats [NaN, NaN]),
      (''EMA_20'', Floats [NaN, NaN]),
      (''RSI'', Floats [NaN, NaN]),
      (''MACD'', Floats [NaN, NaN]),
      (''MACD_Signal'', Floats [NaN, NaN])]"

definition enriched_frame :: frame where
  "enriched_frame =
     \<lparr>index = RangeIndex 2,
      columns = (''Datetime'', stamps2) # sample_columns @ indicator_columns\<rparr>"

definition display_name :: "string \<Rightarrow> string" where
  "display_name symbol = (case map_of stock_names symbol of None \<Rightarrow> [] | Some name \<Rightarrow> name)"

text \<open>
  A second stand-in for the indicator library, whose results show what it was given:
  every function returns the values of its input series, each raised by a number made of
  the window sizes of the call.
\<close>

fun f64_shift :: "rat \<Rightarrow> f64 \<Rightarrow> f64" where
  "f64_shift k (Fin a) = Fin (a + k)"
| "f64_shift k x = x"

fun shifted :: "column \<Rightarrow> rat \<Rightarrow> f64 list" where
  "shifted (Floats xs) k = map (f64_shift k) xs"
| "shifted (Stamps tz ts) k = []"
| "shifted (Ints xs) k = []"

definition tagging_ta :: ta where
  "tagging_ta =
     \<lparr>sma_indicator = (\<lambda>c w. shifted c (of_nat w)),
      ema_indicator = (\<lambda>c w. shifted c (2 * of_nat w)),
      rsi = (\<lambda>c w. shifted c (- of_nat w)),
      macd = (\<lambda>c slow fast. shifted c (100 * of_nat slow + of_nat fast)),
      macd_signal = (\<lambda>c slow fast sign.
                       shifted c (10000 * of_nat slow + 100 * of_nat fast + of_nat sign))\<rparr>"

section \<open>Properties of the Data Fetcher\<close>

lemma bnd_Inr [simp]: "bnd (Inr x) f = f x"
  by (simp add: bnd_def)

lemma bnd_Inl [simp]: "bnd (Inl e) f = Inl e"
  by (simp add: bnd_def)

text \<open>The fetcher in closed form: one request, and the three outcomes of its answer.\<close>

lemma fetch_stock_data_eq:
  "fetch_stock_data ev tk period iv s =
     (let rq = (if period = ''1wk''
                then Range tk (datetime_now ev s - 604800000000) (datetime_now ev s) iv
                else if period = ''1d'' then Period tk ''1d'' iv
                else Period tk period iv);
          s1 = s\<lparr>requests := requests s @ [rq]\<rparr>
      in case provider ev (length (requests s)) rq of
           Raises e \<Rightarrow>
             if is_exception e
             then (Inr None,
                   emit (Error (''Error fetching data for '' @ tk @ '': '' @ exn_str e)) s1)
             else (Inl e, s1)
         | Returns d \<Rightarrow>
             if df_empty d
             then (Inr None, emit (Warning (''No data found for '' @ tk @
                    ''. It may be delisted or there is no price data available.'')) s1)
             else (Inr (Some d), s1))"
  by (simp add: fetch_stock_data_def fetch_try_def yf_download_def timedelta_days_def Let_def
           split: response.split)

text \<open>
  C3. The fetcher sends exactly one request to the provider. For the period
  \<^verbatim>\<open>'1wk'\<close> it is the explicit range from seven days (604800000000 microseconds)
  before now to now, never a period token; for \<^verbatim>\<open>'1d'\<close> it is the provider's
  one-day period; for every other token it is that token, unchanged. The selected
  interval goes with each.
\<close>

theorem fetch_request_by_period:
  "requests (snd (fetch_stock_data ev tk period iv s)) =
     requests s @
       [if period = ''1wk''
        then Range tk (datetime_now ev s - 604800000000) (datetime_now ev s) iv
        else if period = ''1d'' then Period tk ''1d'' iv
        else Period tk period iv]"
  by (simp add: fetch_stock_data_eq Let_def emit_def split: response.split)

text \<open>
  C7. The fetcher lets no exception of class \<^verbatim>\<open>Exception\<close> reach its caller. When
  the provider's answer to the request is an empty frame, the page gets the warning and
  the result is \<^verbatim>\<open>None\<close>; when the provider raises an \<^verbatim>\<open>Exception\<close>, the page
  gets the error message and the result is \<^verbatim>\<open>None\<close> as well; otherwise the result is
  the frame and the page is unchanged. Only an exception outside \<^verbatim>\<open>Exception\<close>
  (\<^verbatim>\<open>KeyboardInterrupt\<close>, \<^verbatim>\<open>SystemExit\<close>) passes through. Each of the three callers
  treats \<^verbatim>\<open>None\<close> the same way, whichever case it comes from: its own section does
  nothing further (no processing, no page element, no request).
\<close>

theorem fetch_catches_exceptions:
  "(let s1 = snd (fetch_stock_data ev tk period iv s);
        r = fst (fetch_stock_data ev tk period iv s)
    in case provider ev (length (requests s)) (last (requests s1)) of
         Raises e \<Rightarrow>
           if is_exception e
           then r = Inr None \<and>
                page s1 = page s @
                  [Error (''Error fetching data for '' @ tk @ '': '' @ exn_str e)]
           else r = Inl e \<and> page s1 = page s
       | Returns d \<Rightarrow>
           if df_empty d
           then r = Inr None \<and>
                page s1 = page s @ [Warning (''No data found for '' @ tk @
                  ''. It may be delisted or there is no price data available.'')]
           else r = Inr (Some d) \<and> page s1 = page s) \<and>
   (fst (fetch_stock_data ev (ticker sel) (time_period sel) (interval sel) s) = Inr None \<longrightarrow>
      main_content ev lib sel s =
        (Inr None, snd (fetch_stock_data ev (ticker sel) (time_period sel) (interval sel) s))) \<and>
   (fst (fetch_stock_data ev (compare_ticker sel) (time_period sel) (interval sel) s) = Inr None \<longrightarrow>
      comparison ev sel data s =
        (Inr (), snd (fetch_stock_data ev (compare_ticker sel) (time_period sel) (interval sel) s))) \<and>
   (fst (fetch_stock_data ev symbol ''1d'' ''1m'' s) = Inr None \<longrightarrow>
      watch_symbol ev symbol s = (Inr (), snd (fetch_stock_data ev symbol ''1d'' ''1m'' s)))"
proof (intro conjI impI)
  show "let s1 = snd (fetch_stock_data ev tk period iv s);
        r = fst (fetch_stock_data ev tk period iv s)
    in case provider ev (length (requests s)) (last (requests s1)) of
         Raises e \<Rightarrow>
           if is_exception e
           then r = Inr None \<and>
                page s1 = page s @
                  [Error (''Error fetching data for '' @ tk @ '': '' @ exn_str e)]
           else r = Inl e \<and> page s1 = page s
       | Returns d \<Rightarrow>
           if df_empty d
           then r = Inr None \<and>
                page s1 = page s @ [Warning (''No data found for '' @ tk @
                  ''. It may be delisted or there is no price data available.'')]
           else r = Inr (Some d) \<and> page s1 = page s"
    by (simp add: fetch_stock_data_eq Let_def emit_def split: response.split)
next
  assume "fst (fetch_stock_data ev (ticker sel) (time_period sel) (interval sel) s) = Inr None"
  then show "main_content ev lib sel s =
        (Inr None, snd (fetch_stock_data ev (ticker sel) (time_period sel) (interval sel) s))"
    by (cases "fetch_stock_data ev (ticker sel) (time_period sel) (interval sel) s")
       (simp add: main_content_def seq_def lift_def)
next
  assume "fst (fetch_stock_data ev (compare_ticker sel) (time_period sel) (interval sel) s) = Inr None"
  then show "comparison ev sel data s =
        (Inr (), snd (fetch_stock_data ev (compare_ticker sel) (time_period sel) (interval sel) s))"
    by (cases "fetch_stock_data ev (compare_ticker sel) (time_period sel) (interval sel) s")
       (simp add: comparison_def seq_def lift_def)
next
  assume "fst (fetch_stock_data ev symbol ''1d'' ''1m'' s) = Inr None"
  then show "watch_symbol ev symbol s = (Inr (), snd (fetch_stock_data ev symbol ''1d'' ''1m'' s))"
    by (cases "fetch_stock_data ev symbol ''1d'' ''1m'' s")
       (simp add: watch_symbol_def seq_def lift_def)
qed

lemma fetch_primary_fails:
  "fetch_stock_data primary_fails tk ''1d'' ''1m'' start =
     (Inr None,
      \<lparr>requests = [Period tk ''1d'' ''1m''],
       page = [Error (''Error fetching data for '' @ tk @ '': Connection timed out'')]\<rparr>)"
  by (simp add: fetch_stock_data_eq primary_fails_def start_def emit_def)

lemma fetch_primary_empty:
  "fetch_stock_data primary_empty tk ''1d'' ''1m'' start =
     (Inr None,
      \<lparr>requests = [Period tk ''1d'' ''1m''],
       page = [Warning (''No data found for '' @ tk @
                 ''. It may be delisted or there is no price data available.'')]\<rparr>)"
  by (simp add: fetch_stock_data_eq primary_empty_def start_def emit_def df_empty_def
        nrows_def empty_frame_def)

theorem fetch_catches_exceptions_witness:
  "main_content primary_fails sample_ta sample_selection start =
     (Inr None,
      \<lparr>requests = [Period ''AAPL'' ''1d'' ''1m''],
       page = [Error ''Error fetching data for AAPL: Connection timed out'']\<rparr>) \<and>
   comparison primary_fails sample_selection None start =
     (Inr (),
      \<lparr>requests = [Period ''GOOGL'' ''1d'' ''1m''],
       page = [Error ''Error fetching data for GOOGL: Connection timed out'']\<rparr>) \<and>
   watch_symbol primary_fails ''MSFT'' start =
     (Inr (),
      \<lparr>requests = [Period ''MSFT'' ''1d'' ''1m''],
       page = [Error ''Error fetching data for MSFT: Connection timed out'']\<rparr>) \<and>
   main_content primary_empty sample_ta sample_selection start =
     (Inr None,
      \<lparr>requests = [Period ''AAPL'' ''1d'' ''1m''],
       page = [Warning ''No data found for AAPL. It may be delisted or there is no price data available.'']\<rparr>) \<and>
   watch_symbol primary_empty ''MSFT'' start =
     (Inr (),
      \<lparr>requests = [Period ''MSFT'' ''1d'' ''1m''],
       page = [Warning ''No data found for MSFT. It may be delisted or there is no price data available.'']\<rparr>)"
  using fetch_catches_exceptions [where ev = primary_fails and s = start
          and sel = sample_selection and lib = sample_ta and data = None
          and symbol = "''MSFT''"]
        fetch_catches_exceptions [where ev = primary_empty and s = start
          and sel = sample_selection and lib = sample_ta and data = None
          and symbol = "''MSFT''"]
  by (simp add: fetch_primary_fails fetch_primary_empty sample_selection_def)

text \<open>
  The claim as stated fails twice. An interrupt from the keyboard during the download is
  not an \<^verbatim>\<open>Exception\<close>: the fetcher raises it to its caller, without a message on the
  page. And the caller does not always skip the processing for that ticker only: when the
  provider has no data for the primary ticker and the comparison ticker is fetched, the
  pass ends with the TypeError of the comparison section, before the watchlist.
\<close>

theorem interrupt_passes_the_fetcher:
  "fetch_stock_data interrupted ''AAPL'' ''1d'' ''1m'' start =
     (Inl (KeyboardInterrupt []),
      \<lparr>requests = [Period ''AAPL'' ''1d'' ''1m''], page = []\<rparr>) \<and>
   render_pass primary_empty sample_ta sample_selection start =
     (Inl (TypeError ''NoneType object is not subscriptable''),
      \<lparr>requests = [Period ''AAPL'' ''1d'' ''1m'', Period ''GOOGL'' ''1d'' ''1m''],
       page = [Title ''Real Time Stock Dashboard'',
               SidebarHeader ''Chart Parameters'',
               SidebarSubheader ''Compare Stocks'',
               SidebarCountdown 20,
               Warning ''No data found for AAPL. It may be delisted or there is no price data available.'']\<rparr>)"
proof
  show "fetch_stock_data interrupted ''AAPL'' ''1d'' ''1m'' start =
     (Inl (KeyboardInterrupt []),
      \<lparr>requests = [Period ''AAPL'' ''1d'' ''1m''], page = []\<rparr>)"
    by (simp add: fetch_stock_data_eq interrupted_def start_def)
next
  have c: "countdown t t = Inr 20" for t
    by (simp add: countdown_def time_since_refresh_def refresh_interval_def f64_round_def)
  have e: "df_empty empty_frame"
    by (simp add: df_empty_def nrows_def empty_frame_def)
  have n: "\<not> df_empty raw_frame"
    by (simp add: df_empty_def nrows_def raw_frame_def sample_columns_def)
  have p: "process_data raw_frame = Inr normalized_frame"
    by (simp add: raw_frame_def normalized_frame_def sample_columns_def process_data_def
          reset_index_def index_label_def column_names_def nrows_def rename_columns_def)
  show "render_pass primary_empty sample_ta sample_selection start =
     (Inl (TypeError ''NoneType object is not subscriptable''),
      \<lparr>requests = [Period ''AAPL'' ''1d'' ''1m'', Period ''GOOGL'' ''1d'' ''1m''],
       page = [Title ''Real Time Stock Dashboard'',
               SidebarHeader ''Chart Parameters'',
               SidebarSubheader ''Compare Stocks'',
               SidebarCountdown 20,
               Warning ''No data found for AAPL. It may be delisted or there is no price data available.'']\<rparr>)"
    by (simp add: render_pass_def seq_def lift_def st_def emit_def start_def
          primary_empty_def sample_selection_def c e n p
          main_content_def comparison_def comparison_chart_def
          fetch_stock_data_eq datetime_now_def)
qed

text \<open>
  C10. The fetcher returns \<^verbatim>\<open>None\<close> or a frame with at least one row and one
  column, never an empty frame (it returns nothing only when the provider raised an
  exception outside \<^verbatim>\<open>Exception\<close>, which passes through). So the test \<^verbatim>\<open>not real_time_data.empty\<close> of the
  watchlist loop never decides: the loop body is the same function without it.
\<close>

theorem fetch_none_or_rows:
  "(case fst (fetch_stock_data ev tk period iv s) of
      Inl e \<Rightarrow>
        \<not> is_exception e \<and>
        provider ev (length (requests s))
          (last (requests (snd (fetch_stock_data ev tk period iv s)))) = Raises e
    | Inr None \<Rightarrow> True
    | Inr (Some d) \<Rightarrow> 0 < nrows d \<and> columns d \<noteq> [] \<and> \<not> df_empty d) \<and>
   watch_symbol ev symbol s =
     seq (fetch_stock_data ev symbol ''1d'' ''1m'')
       (\<lambda>real_time_data. case real_time_data of
                            None \<Rightarrow> lift (Inr ())
                          | Some d \<Rightarrow> watch_quote symbol d) s"
  by (simp add: fetch_stock_data_eq watch_symbol_def seq_def Let_def df_empty_def
           split: response.split)

section \<open>Properties of the Normalizer\<close>

lemma process_data_range:
  "index d = RangeIndex n \<Longrightarrow>
   process_data d = Inl (AttributeError ''RangeIndex object has no attribute tzinfo'')"
  by (simp add: process_data_def)

lemma process_data_datetime:
  "index d = DatetimeIndex nm tz ts \<Longrightarrow>
   process_data d =
     bnd (reset_index (d\<lparr>index := DatetimeIndex nm (Some ''US/Eastern'') ts\<rparr>))
       (\<lambda>x. Inr (rename_columns ''Date'' ''Datetime'' x))"
  by (cases tz) (simp_all add: process_data_def)

lemma process_data_fresh:
  assumes "index d = DatetimeIndex nm tz ts"
      and "index_label nm (column_names d) \<notin> set (column_names d)"
  shows "process_data d =
     Inr (rename_columns ''Date'' ''Datetime''
            \<lparr>index = RangeIndex (length ts),
             columns = (index_label nm (column_names d), Stamps (Some ''US/Eastern'') ts)
                         # columns d\<rparr>)"
  using assms by (simp add: process_data_datetime reset_index_def column_names_def nrows_def)

lemma process_data_clash:
  assumes "index d = DatetimeIndex nm tz ts"
      and "index_label nm (column_names d) \<in> set (column_names d)"
  shows "process_data d =
     Inl (ValueError (''cannot insert '' @ index_label nm (column_names d) @ '', already exists''))"
  using assms by (simp add: process_data_datetime reset_index_def column_names_def nrows_def)

lemma process_data_Inr_range:
  assumes "process_data d = Inr g"
  shows "index g = RangeIndex (nrows d)"
proof (cases "index d")
  case (DatetimeIndex nm tz ts)
  show ?thesis
  proof (cases "index_label nm (column_names d) \<in> set (column_names d)")
    case True
    with DatetimeIndex assms show ?thesis by (simp add: process_data_clash)
  next
    case False
    with DatetimeIndex assms show ?thesis
      by (auto simp: process_data_fresh rename_columns_def nrows_def)
  qed
next
  case (RangeIndex n)
  with assms show ?thesis by (simp add: process_data_range)
qed

text \<open>The sample frames, normalized.\<close>

lemma process_raw_frame: "process_data raw_frame = Inr normalized_frame"
  by (simp add: raw_frame_def normalized_frame_def sample_columns_def process_data_def
        reset_index_def index_label_def column_names_def nrows_def rename_columns_def)

lemma process_eastern_frame: "process_data eastern_frame = Inr normalized_frame"
  by (simp add: eastern_frame_def normalized_frame_def sample_columns_def process_data_def
        reset_index_def index_label_def column_names_def nrows_def rename_columns_def)

text \<open>
  C5. A price series comes with its rows in chronological order. For every such frame
  with a datetime index (whose label is not yet a column) the Normalizer returns the
  frame with the same rows in the same order: the index's instants, unchanged, become the
  first column, in the zone US/Eastern and ascending, and every data column follows as it
  was; only the label \<^verbatim>\<open>Date\<close> is renamed. A naive index is read as UTC first: the
  result is the one for the same instants marked UTC.
\<close>

theorem normalizer_keeps_order_sets_zone:
  assumes "index d = DatetimeIndex nm tz ts"
      and "index_label nm (column_names d) \<notin> set (column_names d)"
      and "sorted ts"
  shows "process_data d =
           Inr \<lparr>index = RangeIndex (length ts),
                columns =
                  map (\<lambda>(n, c). (if n = ''Date'' then ''Datetime'' else n, c))
                    ((index_label nm (column_names d), Stamps (Some ''US/Eastern'') ts)
                       # columns d)\<rparr> \<and>
         (\<exists>g. process_data d = Inr g \<and> nrows g = nrows d \<and>
              map snd (columns g) = Stamps (Some ''US/Eastern'') ts # map snd (columns d) \<and>
              eastern_ascending (snd (hd (columns g)))) \<and>
         (tz = None \<longrightarrow>
            tz_localize_utc (index d) = Inr (DatetimeIndex nm (Some ''UTC'') ts) \<and>
            process_data d = process_data (d\<lparr>index := DatetimeIndex nm (Some ''UTC'') ts\<rparr>))"
proof -
  let ?g = "\<lparr>index = RangeIndex (length ts),
             columns =
               map (\<lambda>(n, c). (if n = ''Date'' then ''Datetime'' else n, c))
                 ((index_label nm (column_names d), Stamps (Some ''US/Eastern'') ts)
                    # columns d)\<rparr>"
  have p: "process_data d = Inr ?g"
    using assms(1,2) by (simp add: process_data_fresh rename_columns_def)
  have n: "nrows ?g = nrows d"
    using assms(1) by (simp add: nrows_def)
  have "map (snd \<circ> (\<lambda>(n, c). (if n = ''Date'' then ''Datetime'' else n, c))) cs = map snd cs"
    for cs :: "(string \<times> column) list"
    by (induction cs) auto
  then have c: "map snd (columns ?g) = Stamps (Some ''US/Eastern'') ts # map snd (columns d)"
    by simp
  have a: "eastern_ascending (snd (hd (columns ?g)))"
    using assms(3) by (simp add: eastern_ascending_def)
  have u: "tz = None \<longrightarrow>
            tz_localize_utc (index d) = Inr (DatetimeIndex nm (Some ''UTC'') ts) \<and>
            process_data d = process_data (d\<lparr>index := DatetimeIndex nm (Some ''UTC'') ts\<rparr>)"
    using assms(1) by (simp add: process_data_datetime [of _ nm _ ts])
  have ex: "\<exists>g. process_data d = Inr g \<and> nrows g = nrows d \<and>
              map snd (columns g) = Stamps (Some ''US/Eastern'') ts # map snd (columns d) \<and>
              eastern_ascending (snd (hd (columns g)))"
    by (rule exI [of _ ?g]) (intro conjI p n c a)
  show ?thesis
    by (intro conjI p ex u)
qed

theorem normalizer_keeps_order_sets_zone_witness:
  "sorted [1704205800000000000, 1704205860000000000 :: int] \<and>
   process_data raw_frame = Inr normalized_frame \<and>
   nrows normalized_frame = nrows raw_frame \<and>
   map snd (columns normalized_frame) =
     Stamps (Some ''US/Eastern'') [1704205800000000000, 1704205860000000000]
       # map snd (columns raw_frame) \<and>
   eastern_ascending (snd (hd (columns normalized_frame))) \<and>
   process_data raw_frame =
     process_data (raw_frame\<lparr>index := DatetimeIndex (Some ''Datetime'') (Some ''UTC'')
                     [1704205800000000000, 1704205860000000000]\<rparr>)"
proof -
  have i: "index raw_frame =
             DatetimeIndex (Some ''Datetime'') None [1704205800000000000, 1704205860000000000]"
    by (simp add: raw_frame_def)
  have f: "index_label (Some ''Datetime'') (column_names raw_frame)
             \<notin> set (column_names raw_frame)"
    by (simp add: raw_frame_def sample_columns_def index_label_def column_names_def)
  have s: "sorted [1704205800000000000, 1704205860000000000 :: int]"
    by simp
  note t = normalizer_keeps_order_sets_zone [OF i f s]
  from t have "\<exists>g. process_data raw_frame = Inr g \<and> nrows g = nrows raw_frame \<and>
      map snd (columns g) =
        Stamps (Some ''US/Eastern'') [1704205800000000000, 1704205860000000000]
          # map snd (columns raw_frame) \<and>
      eastern_ascending (snd (hd (columns g)))"
    by (rule conjunct1 [OF conjunct2])
  then obtain g where g: "process_data raw_frame = Inr g" "nrows g = nrows raw_frame"
    "map snd (columns g) =
       Stamps (Some ''US/Eastern'') [1704205800000000000, 1704205860000000000]
         # map snd (columns raw_frame)"
    "eastern_ascending (snd (hd (columns g)))"
    by (elim exE conjE)
  from g(1) have e: "g = normalized_frame"
    by (simp only: process_raw_frame sum.inject)
  from t have "(None :: string option) = None \<longrightarrow>
      tz_localize_utc (index raw_frame) =
        Inr (DatetimeIndex (Some ''Datetime'') (Some ''UTC'')
               [1704205800000000000, 1704205860000000000]) \<and>
      process_data raw_frame =
        process_data (raw_frame\<lparr>index := DatetimeIndex (Some ''Datetime'') (Some ''UTC'')
                     [1704205800000000000, 1704205860000000000]\<rparr>)"
    by (rule conjunct2 [OF conjunct2])
  then have u: "process_data raw_frame =
        process_data (raw_frame\<lparr>index := DatetimeIndex (Some ''Datetime'') (Some ''UTC'')
                     [1704205800000000000, 1704205860000000000]\<rparr>)"
    by (rule conjunct2 [OF mp [OF _ refl]])
  from s process_raw_frame g(2,3,4) u show ?thesis
    unfolding e by (intro conjI)
qed

text \<open>
  C4. The Normalizer is not idempotent. Its output has a range index, which has no
  \<^verbatim>\<open>tzinfo\<close>: a second call on it raises AttributeError, whatever the first input
  was. What is idempotent is the time-zone step: on a frame whose datetime index is
  already in US/Eastern the Normalizer changes neither instants nor zone, it only turns
  the index into a column and renames it.
\<close>

theorem normalizer_second_call_raises:
  "(process_data d = Inr g \<longrightarrow>
      process_data g = Inl (AttributeError ''RangeIndex object has no attribute tzinfo'')) \<and>
   (index d = DatetimeIndex nm (Some ''US/Eastern'') ts \<longrightarrow>
      process_data d = bnd (reset_index d) (\<lambda>x. Inr (rename_columns ''Date'' ''Datetime'' x)))"
proof (intro conjI impI)
  assume "process_data d = Inr g"
  then have "index g = RangeIndex (nrows d)" by (rule process_data_Inr_range)
  then show "process_data g = Inl (AttributeError ''RangeIndex object has no attribute tzinfo'')"
    by (rule process_data_range)
next
  assume a: "index d = DatetimeIndex nm (Some ''US/Eastern'') ts"
  then have e: "d\<lparr>index := DatetimeIndex nm (Some ''US/Eastern'') ts\<rparr> = d" by simp
  show "process_data d = bnd (reset_index d) (\<lambda>x. Inr (rename_columns ''Date'' ''Datetime'' x))"
    by (simp only: process_data_datetime [OF a] e)
qed

theorem normalizer_second_call_raises_witness:
  "process_data eastern_frame = Inr normalized_frame \<and>
   process_data normalized_frame =
     Inl (AttributeError ''RangeIndex object has no attribute tzinfo'') \<and>
   process_data eastern_frame =
     bnd (reset_index eastern_frame) (\<lambda>x. Inr (rename_columns ''Date'' ''Datetime'' x))"
  using normalizer_second_call_raises [of eastern_frame normalized_frame "Some ''Datetime''"
          "[1704205800000000000, 1704205860000000000]"]
  by (simp add: process_eastern_frame) (simp add: eastern_frame_def)

text \<open>
  The claim as stated fails on the normalized sample frame: the second call does not
  return it.
\<close>

theorem normalizer_not_idempotent:
  "process_data eastern_frame = Inr normalized_frame \<and>
   process_data normalized_frame =
     Inl (AttributeError ''RangeIndex object has no attribute tzinfo'') \<and>
   process_data normalized_frame \<noteq> Inr normalized_frame"
  by (simp add: process_eastern_frame process_data_range normalized_frame_def)

text \<open>The function on the store does what the function on values does, at its argument.\<close>

lemma process_data_inplace_eq:
  "process_data_inplace a h =
     (case process_data (h a) of
        Inr g \<Rightarrow> (Inr a, h(a := g))
      | Inl e \<Rightarrow>
          (Inl e, case index (h a) of
                    RangeIndex n \<Rightarrow> h
                  | DatetimeIndex nm tz ts \<Rightarrow>
                      h(a := (h a)\<lparr>index := DatetimeIndex nm (Some ''US/Eastern'') ts\<rparr>)))"
proof (cases "index (h a)")
  case (RangeIndex n)
  then show ?thesis by (simp add: process_data_inplace_def process_data_def)
next
  case (DatetimeIndex nm tz ts)
  then show ?thesis
    by (cases tz; cases "reset_index ((h a)\<lparr>index := DatetimeIndex nm (Some ''US/Eastern'') ts\<rparr>)")
       (simp_all add: process_data_inplace_def process_data_def Let_def)
qed

text \<open>
  C6. The Normalizer changes the frame object it is given and returns that same object:
  after a successful call the store holds the normalized frame at the argument's address.
  It writes nowhere else: every other object of the store is unchanged, also when it
  raises.
\<close>

theorem normalizer_writes_only_its_argument:
  "(\<forall>b. b \<noteq> a \<longrightarrow> snd (process_data_inplace a h) b = h b) \<and>
   (case process_data (h a) of
      Inr g \<Rightarrow> process_data_inplace a h = (Inr a, h(a := g))
    | Inl e \<Rightarrow> fst (process_data_inplace a h) = Inl e)"
  by (simp add: process_data_inplace_eq split: sum.split index.split)

theorem normalizer_writes_only_its_argument_witness:
  "snd (process_data_inplace 0 (\<lambda>k. raw_frame)) 1 = raw_frame \<and>
   process_data_inplace 0 (\<lambda>k. raw_frame) = (Inr 0, (\<lambda>k. raw_frame)(0 := normalized_frame))"
  using normalizer_writes_only_its_argument [of 0 "\<lambda>k. raw_frame"]
  by (simp add: process_raw_frame)

text \<open>
  The claim as stated fails on the sample frame: after the call the object that was
  passed in is no longer the frame it was.
\<close>

theorem normalizer_mutates_its_input:
  "fst (process_data_inplace 0 (\<lambda>k. raw_frame)) = Inr 0 \<and>
   snd (process_data_inplace 0 (\<lambda>k. raw_frame)) 0 = normalized_frame \<and>
   normalized_frame \<noteq> raw_frame"
  by (simp add: process_data_inplace_eq process_raw_frame)
     (simp add: normalized_frame_def raw_frame_def)

section \<open>Properties of the Indicator Enricher\<close>

lemma setitem_fresh: "k \<notin> fst ` set cs \<Longrightarrow> setitem k v cs = cs @ [(k, v)]"
  by (induction cs) auto

lemma nrows_columns_update [simp]: "nrows (d\<lparr>columns := cs\<rparr>) = nrows d"
  by (simp add: nrows_def)

lemma column_names_update [simp]: "column_names (d\<lparr>columns := cs\<rparr>) = map fst cs"
  by (simp add: column_names_def)

lemma getitem_append_fresh:
  "getitem d k = Inr c \<Longrightarrow> getitem (d\<lparr>columns := columns d @ cs\<rparr>) k = Inr c"
  by (auto simp: getitem_def map_add_def split: option.splits)

lemma set_column_fresh:
  "k \<notin> set (column_names d) \<Longrightarrow>
   set_column d k xs = d\<lparr>columns := columns d @ [(k, Floats (align (nrows d) xs))]\<rparr>"
  by (simp add: set_column_def column_names_def setitem_fresh)

lemma length_align [simp]: "length (align n xs) = n"
  by (simp add: align_def)

lemma add_technical_indicators_fresh:
  assumes "getitem data ''Close'' = Inr close"
      and "''SMA_20'' \<notin> set (column_names data)"
      and "''EMA_20'' \<notin> set (column_names data)"
  shows "add_technical_indicators lib data =
     Inr (data\<lparr>columns := columns data @
            [(''SMA_20'', Floats (align (nrows data) (sma_indicator lib close 20))),
             (''EMA_20'', Floats (align (nrows data) (ema_indicator lib close 20)))]\<rparr>)"
  using assms
  by (simp add: add_technical_indicators_def Let_def set_column_fresh getitem_append_fresh
        column_names_def)

lemma add_more_indicators_fresh:
  assumes "getitem data ''Close'' = Inr close"
      and "''RSI'' \<notin> set (column_names data)"
      and "''MACD'' \<notin> set (column_names data)"
      and "''MACD_Signal'' \<notin> set (column_names data)"
  shows "add_more_indicators lib data =
     Inr (data\<lparr>columns := columns data @
            [(''RSI'', Floats (align (nrows data) (rsi lib close 14))),
             (''MACD'', Floats (align (nrows data) (macd lib close 26 12))),
             (''MACD_Signal'', Floats (align (nrows data) (macd_signal lib close 26 12 9)))]\<rparr>)"
  using assms
  by (simp add: add_more_indicators_def Let_def set_column_fresh getitem_append_fresh
        column_names_def window_slow_def window_fast_def window_sign_def)

text \<open>
  C8. On a frame that has a \<^verbatim>\<open>Close\<close> column and none of the five indicator
  columns yet, the Indicator Enricher returns a frame with the same index and number of
  rows, with every column of the input unchanged and in place, followed by exactly the
  five columns SMA_20, EMA_20, RSI, MACD and MACD_Signal. Each holds the values the
  library returns for the \<^verbatim>\<open>Close\<close> column alone with the windows 20, 20, 14,
  (26, 12) and (26, 12, 9): the first values of the result, as many as the frame has
  rows, and NaN for rows the result lacks. When the library returns one value per row, as
  it does, the columns are its results, value for value.
\<close>

theorem enricher_appends_five_columns:
  assumes "getitem data ''Close'' = Inr close"
      and "set indicator_names \<inter> set (column_names data) = {}"
  shows "\<exists>out. enrich lib data = Inr out \<and>
           nrows out = nrows data \<and>
           index out = index data \<and>
           columns out = columns data @
             map (\<lambda>(k, xs). (k, Floats (take (nrows data) xs @
                                          replicate (nrows data - length xs) NaN)))
               [(''SMA_20'', sma_indicator lib close 20),
                (''EMA_20'', ema_indicator lib close 20),
                (''RSI'', rsi lib close 14),
                (''MACD'', macd lib close 26 12),
                (''MACD_Signal'', macd_signal lib close 26 12 9)] \<and>
           (length (sma_indicator lib close 20) = nrows data \<and>
            length (ema_indicator lib close 20) = nrows data \<and>
            length (rsi lib close 14) = nrows data \<and>
            length (macd lib close 26 12) = nrows data \<and>
            length (macd_signal lib close 26 12 9) = nrows data \<longrightarrow>
            columns out = columns data @
              [(''SMA_20'', Floats (sma_indicator lib close 20)),
               (''EMA_20'', Floats (ema_indicator lib close 20)),
               (''RSI'', Floats (rsi lib close 14)),
               (''MACD'', Floats (macd lib close 26 12)),
               (''MACD_Signal'', Floats (macd_signal lib close 26 12 9))])"
proof -
  from assms(2) have f:
    "''SMA_20'' \<notin> set (column_names data)" "''EMA_20'' \<notin> set (column_names data)"
    "''RSI'' \<notin> set (column_names data)" "''MACD'' \<notin> set (column_names data)"
    "''MACD_Signal'' \<notin> set (column_names data)"
    by (auto simp: indicator_names_def)
  let ?d = "data\<lparr>columns := columns data @
            [(''SMA_20'', Floats (align (nrows data) (sma_indicator lib close 20))),
             (''EMA_20'', Floats (align (nrows data) (ema_indicator lib close 20)))]\<rparr>"
  have t: "add_technical_indicators lib data = Inr ?d"
    using assms(1) f(1,2) by (rule add_technical_indicators_fresh)
  have c: "getitem ?d ''Close'' = Inr close"
    using assms(1) by (rule getitem_append_fresh)
  have g: "''RSI'' \<notin> set (column_names ?d)" "''MACD'' \<notin> set (column_names ?d)"
    "''MACD_Signal'' \<notin> set (column_names ?d)"
    using f by (simp_all add: column_names_def)
  have m: "add_more_indicators lib ?d = Inr (?d\<lparr>columns := columns ?d @
            [(''RSI'', Floats (align (nrows ?d) (rsi lib close 14))),
             (''MACD'', Floats (align (nrows ?d) (macd lib close 26 12))),
             (''MACD_Signal'', Floats (align (nrows ?d) (macd_signal lib close 26 12 9)))]\<rparr>)"
    using c g by (rule add_more_indicators_fresh)
  have r: "enrich lib data = Inr (data\<lparr>columns := columns data @
            [(''SMA_20'', Floats (align (nrows data) (sma_indicator lib close 20))),
             (''EMA_20'', Floats (align (nrows data) (ema_indicator lib close 20))),
             (''RSI'', Floats (align (nrows data) (rsi lib close 14))),
             (''MACD'', Floats (align (nrows data) (macd lib close 26 12))),
             (''MACD_Signal'', Floats (align (nrows data) (macd_signal lib close 26 12 9)))]\<rparr>)"
    by (simp add: enrich_def t m)
  show ?thesis
    unfolding r by (simp add: align_def)
qed

theorem enricher_appends_five_columns_witness:
  "getitem normalized_frame ''Close'' = Inr (Floats [Fin 100, Fin 107]) \<and>
   set indicator_names \<inter> set (column_names normalized_frame) = {} \<and>
   enrich tagging_ta normalized_frame =
     Inr (normalized_frame\<lparr>columns := columns normalized_frame @
            [(''SMA_20'', Floats [Fin 120, Fin 127]),
             (''EMA_20'', Floats [Fin 140, Fin 147]),
             (''RSI'', Floats [Fin 86, Fin 93]),
             (''MACD'', Floats [Fin 2712, Fin 2719]),
             (''MACD_Signal'', Floats [Fin 261309, Fin 261316])]\<rparr>)"
proof -
  have c: "getitem normalized_frame ''Close'' = Inr (Floats [Fin 100, Fin 107])"
    by (simp add: getitem_def normalized_frame_def sample_columns_def)
  have f: "set indicator_names \<inter> set (column_names normalized_frame) = {}"
    by (simp add: indicator_names_def column_names_def normalized_frame_def sample_columns_def)
  have n: "nrows normalized_frame = 2"
    by (simp add: nrows_def normalized_frame_def)
  have v: "sma_indicator tagging_ta (Floats [Fin 100, Fin 107]) 20 = [Fin 120, Fin 127]"
    "ema_indicator tagging_ta (Floats [Fin 100, Fin 107]) 20 = [Fin 140, Fin 147]"
    "rsi tagging_ta (Floats [Fin 100, Fin 107]) 14 = [Fin 86, Fin 93]"
    "macd tagging_ta (Floats [Fin 100, Fin 107]) 26 12 = [Fin 2712, Fin 2719]"
    "macd_signal tagging_ta (Floats [Fin 100, Fin 107]) 26 12 9 = [Fin 261309, Fin 261316]"
    by (simp_all add: tagging_ta_def)
  from enricher_appends_five_columns [OF c f, of tagging_ta]
  obtain out where o: "enrich tagging_ta normalized_frame = Inr out"
    "index out = index normalized_frame"
    "columns out = columns normalized_frame @
              [(''SMA_20'', Floats [Fin 120, Fin 127]),
               (''EMA_20'', Floats [Fin 140, Fin 147]),
               (''RSI'', Floats [Fin 86, Fin 93]),
               (''MACD'', Floats [Fin 2712, Fin 2719]),
               (''MACD_Signal'', Floats [Fin 261309, Fin 261316])]"
    unfolding v n by auto
  have "out = normalized_frame\<lparr>columns := columns normalized_frame @
              [(''SMA_20'', Floats [Fin 120, Fin 127]),
               (''EMA_20'', Floats [Fin 140, Fin 147]),
               (''RSI'', Floats [Fin 86, Fin 93]),
               (''MACD'', Floats [Fin 2712, Fin 2719]),
               (''MACD_Signal'', Floats [Fin 261309, Fin 261316])]\<rparr>"
    using o(2,3) by simp
  with o(1) c f show ?thesis by simp
qed

section \<open>Properties of the Metrics Calculator\<close>

lemma iloc_first: "xs \<noteq> [] \<Longrightarrow> iloc xs 0 = Inr (hd xs)"
  by (cases xs) (simp_all add: iloc_def)

lemma iloc_last: "xs \<noteq> [] \<Longrightarrow> iloc xs (- 1) = Inr (last xs)"
proof -
  assume a: "xs \<noteq> []"
  then show ?thesis
    by (cases xs) (simp_all add: iloc_def last_conv_nth nat_diff_distrib')
qed

lemma foldl_add_word: "foldl (+) a xs = a + sum_list xs" for a :: "64 word"
  by (induction xs arbitrary: a) (simp_all add: add.assoc)

lemma series_sum_eq: "series_sum xs = sum_list xs"
  by (simp add: series_sum_def foldl_add_word)

lemma foldl_f64_max_Fin: "foldl f64_max (Fin a) (map Fin hs) = Fin (foldl max a hs)"
  by (induction hs arbitrary: a) (simp_all add: f64_max_def max_def)

lemma foldl_f64_min_Fin: "foldl f64_min (Fin a) (map Fin hs) = Fin (foldl min a hs)"
  by (induction hs arbitrary: a) (simp_all add: f64_min_def min_def)

lemma foldl_max_Max: "foldl max a hs = Max (set (a # hs))" for a :: rat
proof -
  have "foldl max a hs = fold max hs a"
    by (induction hs arbitrary: a) (simp_all add: max.commute)
  then show ?thesis
    by (simp only: Max.set_eq_fold)
qed

lemma foldl_min_Min: "foldl min a hs = Min (set (a # hs))" for a :: rat
proof -
  have "foldl min a hs = fold min hs a"
    by (induction hs arbitrary: a) (simp_all add: min.commute)
  then show ?thesis
    by (simp only: Min.set_eq_fold)
qed

lemma series_max_Fin: "hs \<noteq> [] \<Longrightarrow> series_max (map Fin hs) = Fin (Max (set hs))"
proof (cases hs)
  case Nil
  assume "hs \<noteq> []" with Nil show ?thesis by simp
next
  case (Cons a as)
  have "filter (\<lambda>x. x \<noteq> NaN) (map Fin hs) = map Fin hs"
    by (induction hs) simp_all
  with Cons show ?thesis
    by (simp add: series_max_def foldl_f64_max_Fin foldl_max_Max)
qed

lemma series_min_Fin: "hs \<noteq> [] \<Longrightarrow> series_min (map Fin hs) = Fin (Min (set hs))"
proof (cases hs)
  case Nil
  assume "hs \<noteq> []" with Nil show ?thesis by simp
next
  case (Cons a as)
  have "filter (\<lambda>x. x \<noteq> NaN) (map Fin hs) = map Fin hs"
    by (induction hs) simp_all
  with Cons show ?thesis
    by (simp add: series_min_def foldl_f64_min_Fin foldl_min_Min)
qed

lemma calculate_metrics_eq:
  assumes "getitem data ''Close'' = Inr (Floats closes)" and "closes \<noteq> []"
      and "getitem data ''High'' = Inr (Floats highs)"
      and "getitem data ''Low'' = Inr (Floats lows)"
      and "getitem data ''Volume'' = Inr (Ints volumes)"
  shows "calculate_metrics data =
     Inr (last closes,
          f64_sub (last closes) (hd closes),
          f64_mul (f64_div (f64_sub (last closes) (hd closes)) (hd closes)) (Fin 100),
          series_max highs, series_min lows, sum_list volumes)"
  using assms
  by (simp add: calculate_metrics_def float_series_def int_series_def iloc_first iloc_last
        Let_def series_sum_eq)

text \<open>
  C2. For a series with at least one row, the Metrics Calculator returns the Close of the
  last row, the change from the Close of the first row to it, that change divided by the
  first Close and multiplied by 100, the maximum of the High column, the minimum of the
  Low column and the sum of the Volume column. The arithmetic is float64 (and int64 for
  the volume): each operation rounds to the nearest double. For the closes 100, 102, 101,
  105, 107 this gives 107, 7 and \<open>7 + 2\<^sup>-\<^sup>5\<^sup>0\<close>, which Python prints as
  7.000000000000001 and the page shows as 7.00: \<open>7/100\<close> is not a double, and the
  product of its nearest double with 100 rounds up.
\<close>

theorem metrics_of_series:
  assumes "getitem data ''Close'' = Inr (Floats closes)" and "closes \<noteq> []"
      and "getitem data ''High'' = Inr (Floats highs)"
      and "getitem data ''Low'' = Inr (Floats lows)"
      and "getitem data ''Volume'' = Inr (Ints volumes)"
  shows "calculate_metrics data =
     Inr (last closes,
          f64_sub (last closes) (hd closes),
          f64_mul (f64_div (f64_sub (last closes) (hd closes)) (hd closes)) (Fin 100),
          series_max highs, series_min lows, sum_list volumes) \<and>
     (\<forall>hs. highs = map Fin hs \<and> hs \<noteq> [] \<longrightarrow> series_max highs = Fin (Max (set hs))) \<and>
     (\<forall>ls. lows = map Fin ls \<and> ls \<noteq> [] \<longrightarrow> series_min lows = Fin (Min (set ls)))"
  using calculate_metrics_eq [OF assms] by (simp add: series_max_Fin series_min_Fin)

lemma sub_7: "f64_sub (Fin 107) (Fin 100) = Fin 7"
  by code_simp

lemma pct_7:
  "f64_mul (f64_div (Fin 7) (Fin 100)) (Fin 100) = Fin (7881299347898369 / 1125899906842624)"
  by code_simp

lemma five_rows_metrics:
  "calculate_metrics five_rows =
     Inr (Fin 107, Fin 7, Fin (7881299347898369 / 1125899906842624), Fin 108, Fin 98, 6000)"
proof -
  have c: "getitem five_rows ''Close'' = Inr (Floats [Fin 100, Fin 102, Fin 101, Fin 105, Fin 107])"
    and h: "getitem five_rows ''High'' = Inr (Floats [Fin 101, Fin 103, Fin 102, Fin 106, Fin 108])"
    and l: "getitem five_rows ''Low'' = Inr (Floats [Fin 98, Fin 100, Fin 100, Fin 101, Fin 104])"
    and v: "getitem five_rows ''Volume'' = Inr (Ints [1000, 1100, 1200, 1300, 1400])"
    by (simp_all add: getitem_def five_rows_def)
  have m: "series_max [Fin 101, Fin 103, Fin 102, Fin 106, Fin 108] = Fin 108"
    "series_min [Fin 98, Fin 100, Fin 100, Fin 101, Fin 104] = Fin 98"
    by (simp_all add: series_max_def series_min_def f64_max_def f64_min_def)
  show ?thesis
    using calculate_metrics_eq [OF c _ h l v]
    by (simp add: sub_7 pct_7 m del: f64_sub.simps f64_div.simps f64_mul.simps)
qed

theorem metrics_of_series_witness:
  "getitem five_rows ''Close'' = Inr (Floats [Fin 100, Fin 102, Fin 101, Fin 105, Fin 107]) \<and>
   calculate_metrics five_rows =
     Inr (Fin 107,
          f64_sub (Fin 107) (Fin 100),
          f64_mul (f64_div (f64_sub (Fin 107) (Fin 100)) (Fin 100)) (Fin 100),
          Fin (Max {101, 103, 102, 106, 108}), Fin (Min {98, 100, 100, 101, 104}), 6000)"
proof -
  have c: "getitem five_rows ''Close'' = Inr (Floats [Fin 100, Fin 102, Fin 101, Fin 105, Fin 107])"
    and h: "getitem five_rows ''High'' = Inr (Floats (map Fin [101, 103, 102, 106, 108]))"
    and l: "getitem five_rows ''Low'' = Inr (Floats (map Fin [98, 100, 100, 101, 104]))"
    and v: "getitem five_rows ''Volume'' = Inr (Ints [1000, 1100, 1200, 1300, 1400])"
    by (simp_all add: getitem_def five_rows_def)
  have n: "[Fin 100, Fin 102, Fin 101, Fin 105, Fin 107] \<noteq> []"
    by simp
  note t = metrics_of_series [OF c n h l v]
  from t have a: "calculate_metrics five_rows =
     Inr (Fin 107,
          f64_sub (Fin 107) (Fin 100),
          f64_mul (f64_div (f64_sub (Fin 107) (Fin 100)) (Fin 100)) (Fin 100),
          series_max (map Fin [101, 103, 102, 106, 108]),
          series_min (map Fin [98, 100, 100, 101, 104]), 6000)"
    by (simp del: f64_sub.simps f64_div.simps f64_mul.simps)
  from t have "\<forall>hs. map Fin [101, 103, 102, 106, 108] = map Fin hs \<and> hs \<noteq> [] \<longrightarrow>
      series_max (map Fin [101, 103, 102, 106, 108]) = Fin (Max (set hs))"
    by (rule conjunct1 [OF conjunct2])
  then have b: "series_max (map Fin [101, 103, 102, 106, 108]) =
      Fin (Max (set [101, 103, 102, 106, 108]))"
    by blast
  from t have "\<forall>ls. map Fin [98, 100, 100, 101, 104] = map Fin ls \<and> ls \<noteq> [] \<longrightarrow>
      series_min (map Fin [98, 100, 100, 101, 104]) = Fin (Min (set ls))"
    by (rule conjunct2 [OF conjunct2])
  then have d: "series_min (map Fin [98, 100, 100, 101, 104]) =
      Fin (Min (set [98, 100, 100, 101, 104]))"
    by blast
  have e: "set [101, 103, 102, 106, 108 :: rat] = {101, 103, 102, 106, 108}"
    "set [98, 100, 100, 101, 104 :: rat] = {98, 100, 100, 101, 104}"
    by simp_all
  show ?thesis
    unfolding a b d e using c by (simp del: f64_sub.simps f64_div.simps f64_mul.simps)
qed

text \<open>
  The claim as stated fails on the five-row series: the percentage is not the double 7.0.
\<close>

theorem metrics_of_five_rows:
  "calculate_metrics five_rows =
     Inr (Fin 107, Fin 7, Fin (7 + 1 / 2 ^ 50), Fin 108, Fin 98, 6000) \<and>
   Fin (7 + 1 / 2 ^ 50) \<noteq> Fin 7"
  by (simp add: five_rows_metrics)

section \<open>Properties of the Presentation Layer\<close>

lemma f64_round_0 [simp]: "f64_round 0 = Fin 0"
  by (simp add: f64_round_def)

lemma countdown_same: "countdown t t = Inr 20"
  by (simp add: countdown_def time_since_refresh_def refresh_interval_def)

lemma stock_name_AAPL: "stock_name ''AAPL'' = Inr ''Apple Inc.''"
  by (simp add: stock_name_def stock_names_def)

lemma stock_name_GOOGL: "stock_name ''GOOGL'' = Inr ''Alphabet Inc.''"
  by (simp add: stock_name_def stock_names_def)

lemma not_empty_raw: "\<not> df_empty raw_frame"
  by (simp add: df_empty_def nrows_def raw_frame_def sample_columns_def)

text \<open>Rounding a number of magnitude at most 1/2 gives a double of magnitude below 1.\<close>

lemma pow2_pos: "0 < pow2 e"
  by (simp add: pow2_def)

lemma pow2_ge_1: "0 \<le> e \<Longrightarrow> 1 \<le> pow2 e"
  by (simp add: pow2_def)

lemma pow2_le_neg: "e \<le> - 53 \<Longrightarrow> pow2 e \<le> 1 / 2 ^ 53"
proof -
  assume a: "e \<le> - 53"
  then have "53 \<le> nat (- e)" by simp
  then have "(2::rat) ^ 53 \<le> 2 ^ nat (- e)"
    by (intro power_increasing) simp_all
  then have "1 / (2::rat) ^ nat (- e) \<le> 1 / 2 ^ 53"
    by (intro divide_left_mono) simp_all
  with a show ?thesis by (simp add: pow2_def)
qed

lemma round_even_near: "\<bar>of_int (round_even z) - z\<bar> \<le> 1 / 2"
proof -
  have a: "of_int \<lfloor>z\<rfloor> \<le> z" and b: "z < of_int \<lfloor>z\<rfloor> + 1" by linarith+
  consider "z - of_int \<lfloor>z\<rfloor> < 1 / 2" | "1 / 2 < z - of_int \<lfloor>z\<rfloor>"
    | "z - of_int \<lfloor>z\<rfloor> = 1 / 2" by linarith
  then show ?thesis
  proof cases
    case 1
    then have "round_even z = \<lfloor>z\<rfloor>" by (simp add: round_even_def Let_def)
    with 1 a show ?thesis by linarith
  next
    case 2
    then have "round_even z = \<lfloor>z\<rfloor> + 1" by (simp add: round_even_def Let_def)
    then have "of_int (round_even z) = of_int \<lfloor>z\<rfloor> + (1::rat)" by simp
    with 2 b show ?thesis by linarith
  next
    case 3
    then have "round_even z = \<lfloor>z\<rfloor> \<or> round_even z = \<lfloor>z\<rfloor> + 1"
      by (simp add: round_even_def Let_def)
    then have "of_int (round_even z) = (of_int \<lfloor>z\<rfloor> :: rat) \<or>
               of_int (round_even z) = of_int \<lfloor>z\<rfloor> + (1::rat)" by auto
    with 3 show ?thesis by linarith
  qed
qed

lemma f64_exponent_small:
  assumes "\<bar>x\<bar> \<le> 1 / 2"
  shows "f64_exponent x \<le> - 1"
proof -
  obtain p q where pq: "quotient_of \<bar>x\<bar> = (p, q)" by (cases "quotient_of \<bar>x\<bar>")
  then have q: "0 < q" and x: "\<bar>x\<bar> = of_int p / of_int q"
    by (auto dest: quotient_of_denom_pos quotient_of_div)
  show ?thesis
  proof (cases "pow2 (bitlen p - bitlen q) \<le> \<bar>x\<bar>")
    case True
    with assms have "pow2 (bitlen p - bitlen q) \<le> 1 / 2" by simp
    with pow2_ge_1 [of "bitlen p - bitlen q"] have "bitlen p - bitlen q < 0"
      by (cases "0 \<le> bitlen p - bitlen q") auto
    with True pq show ?thesis by (simp add: f64_exponent_def)
  next
    case False
    from x assms q have "of_int p / of_int q \<le> (1::rat)" by simp
    with q have "(of_int p :: rat) \<le> of_int q" by (simp add: divide_le_eq)
    then have "p \<le> q" by simp
    then have "bitlen p \<le> bitlen q"
      by (simp add: bitlen_def floorlog_mono nat_mono)
    with False pq show ?thesis by (simp add: f64_exponent_def)
  qed
qed

lemma f64_round_small:
  assumes "\<bar>x\<bar> \<le> 1 / 2"
  shows "\<exists>y. f64_round x = Fin y \<and> \<bar>y\<bar> < 1"
proof (cases "x = 0")
  case True
  then show ?thesis by (simp add: f64_round_def)
next
  case False
  define e where "e = max (f64_exponent x) (- 1022)"
  define ulp where "ulp = pow2 (e - 52)"
  define y where "y = of_int (round_even (x / ulp)) * ulp"
  have "e \<le> - 1" using f64_exponent_small [OF assms] by (simp add: e_def)
  then have u: "ulp \<le> 1 / 2 ^ 53" unfolding ulp_def by (intro pow2_le_neg) simp
  have up: "0 < ulp" by (simp add: ulp_def pow2_pos)
  have "\<bar>of_int (round_even (x / ulp)) - x / ulp\<bar> \<le> 1 / 2" by (rule round_even_near)
  then have "\<bar>of_int (round_even (x / ulp)) - x / ulp\<bar> * ulp \<le> 1 / 2 * ulp"
    using up by (intro mult_right_mono) simp_all
  moreover have "\<bar>of_int (round_even (x / ulp)) - x / ulp\<bar> * ulp = \<bar>y - x\<bar>"
    using up by (simp add: y_def abs_mult [symmetric] left_diff_distrib abs_mult_pos)
  ultimately have "\<bar>y - x\<bar> \<le> 1 / 2 * ulp" by simp
  moreover from u have "ulp \<le> 1 / 9007199254740992" by simp
  ultimately have y1: "\<bar>y\<bar> < 1" using assms by linarith
  have "(1::rat) \<le> pow2 1024" by (rule pow2_ge_1) simp
  with y1 have "\<not> pow2 1024 \<le> \<bar>y\<bar>" by simp
  with False have "f64_round x = Fin y"
    by (simp add: f64_round_def Let_def e_def [symmetric] ulp_def [symmetric] y_def [symmetric])
  with y1 show ?thesis by blast
qed

lemma py_int_small: "\<bar>y\<bar> < 1 \<Longrightarrow> py_int (Fin y) = Inr 0"
  by (auto simp: floor_eq_iff ceiling_eq_iff)

text \<open>
  C9. The countdown of the sidebar does not count. Whenever the two readings of the clock
  are at most half a second apart (they are taken by adjacent statements; equal readings
  are the special case), the elapsed time is 0 and the number shown is the refresh
  interval, 20, not 0.
\<close>

theorem countdown_is_refresh_interval:
  assumes "\<bar>t1 - t0\<bar> \<le> 1 / 2"
  shows "time_since_refresh t0 t1 = Inr 0 \<and> countdown t0 t1 = Inr refresh_interval \<and>
         refresh_interval = 20"
proof -
  from f64_round_small [OF assms] obtain y where "f64_round (t1 - t0) = Fin y" "\<bar>y\<bar> < 1"
    by blast
  then have "time_since_refresh t0 t1 = Inr 0"
    by (simp add: time_since_refresh_def py_int_small del: py_int.simps)
  then show ?thesis
    by (simp add: countdown_def bnd_def refresh_interval_def)
qed

theorem countdown_is_refresh_interval_witness:
  "\<bar>(1704205900 + 1 / 4194304) - 1704205900\<bar> \<le> (1 / 2 :: rat) \<and>
   time_since_refresh 1704205900 (1704205900 + 1 / 4194304) = Inr 0 \<and>
   countdown 1704205900 (1704205900 + 1 / 4194304) = Inr 20"
proof -
  have h: "\<bar>(1704205900 + 1 / 4194304) - 1704205900\<bar> \<le> (1 / 2 :: rat)"
    by simp
  from countdown_is_refresh_interval [OF h] h show ?thesis
    by simp
qed

text \<open>The claim as stated fails for two equal readings: the number shown is 20.\<close>

theorem countdown_not_zero:
  "countdown (3408411600 / 2) (3408411600 / 2) = Inr 20 \<and>
   countdown (3408411600 / 2) (3408411600 / 2) \<noteq> Inr 0"
  by (simp add: countdown_def time_since_refresh_def refresh_interval_def)

text \<open>
  C1. A failed fetch for the primary ticker does abort the render pass when the fetch for
  the comparison ticker succeeds: the comparison chart subscripts the variable
  \<^verbatim>\<open>data\<close>, which is \<^verbatim>\<open>None\<close>, the TypeError is caught nowhere, and neither the
  comparison chart nor the watchlist is rendered (no request for a watchlist symbol is
  even sent).
\<close>

theorem failed_primary_aborts_pass:
  "render_pass primary_fails sample_ta sample_selection start =
     (Inl (TypeError ''NoneType object is not subscriptable''),
      \<lparr>requests = [Period ''AAPL'' ''1d'' ''1m'', Period ''GOOGL'' ''1d'' ''1m''],
       page = [Title ''Real Time Stock Dashboard'',
               SidebarHeader ''Chart Parameters'',
               SidebarSubheader ''Compare Stocks'',
               SidebarCountdown 20,
               Error ''Error fetching data for AAPL: Connection timed out'']\<rparr>)"
  by (simp add: render_pass_def seq_def lift_def st_def emit_def start_def
        primary_fails_def sample_selection_def countdown_same
        main_content_def comparison_def comparison_chart_def
        fetch_stock_data_eq datetime_now_def not_empty_raw process_raw_frame)

text \<open>
  The other direction of C1 holds on the sample pass: when the download for the
  comparison ticker fails and the one for the primary ticker succeeds, the pass runs to
  its end. The page has the whole primary dashboard, the error message in place of the
  comparison chart, and one quote for each of the thirteen watchlist symbols.
\<close>

lemma enrich_normalized: 
  "add_technical_indicators sample_ta normalized_frame = Inr
     (normalized_frame\<lparr>columns := columns normalized_frame @
        [(''SMA_20'', Floats [NaN, NaN]), (''EMA_20'', Floats [NaN, NaN])]\<rparr>)"
  "add_more_indicators sample_ta (normalized_frame\<lparr>columns := columns normalized_frame @
        [(''SMA_20'', Floats [NaN, NaN]), (''EMA_20'', Floats [NaN, NaN])]\<rparr>) = Inr enriched_frame"
  by (simp_all add: add_technical_indicators_def add_more_indicators_def Let_def getitem_def
        set_column_def normalized_frame_def sample_columns_def sample_ta_def align_def
        nrows_def enriched_frame_def stamps2_def indicator_columns_def numeral_2_eq_2
        window_slow_def window_fast_def window_sign_def)

lemma metrics_enriched:
  "calculate_metrics enriched_frame =
     Inr (Fin 107, Fin 7, Fin (7881299347898369 / 1125899906842624), Fin 108, Fin 99, 4000)"
proof -
  have c: "getitem enriched_frame ''Close'' = Inr (Floats [Fin 100, Fin 107])"
    and h: "getitem enriched_frame ''High'' = Inr (Floats [Fin 102, Fin 108])"
    and l: "getitem enriched_frame ''Low'' = Inr (Floats [Fin 99, Fin 100])"
    and v: "getitem enriched_frame ''Volume'' = Inr (Ints [1500, 2500])"
    by (simp_all add: getitem_def enriched_frame_def sample_columns_def)
  have m: "series_max [Fin 102, Fin 108] = Fin 108" "series_min [Fin 99, Fin 100] = Fin 99"
    by (simp_all add: series_max_def series_min_def f64_max_def f64_min_def)
  show ?thesis
    using calculate_metrics_eq [OF c _ h l v]
    by (simp add: sub_7 pct_7 m del: f64_sub.simps f64_div.simps f64_mul.simps)
qed

lemma main_dashboard_sample:
  "main_dashboard sample_ta sample_selection raw_frame s =
     (Inr (Some enriched_frame),
      s\<lparr>page := page s @
         [Metric ''Apple Inc. Last Price''
            [Fin 107, Fin 7, Fin (7881299347898369 / 1125899906842624)],
          Metric ''High'' [Fin 108],
          Metric ''Low'' [Fin 99],
          MetricInt ''Volume'' 4000,
          Subheader ''RSI Indicator'',
          LineChart [(''RSI'', Floats [NaN, NaN])],
          PlotlyChart ''Apple Inc. 1D Chart''
            [Candlestick stamps2 (Floats [Fin 100, Fin 101]) (Floats [Fin 102, Fin 108])
               (Floats [Fin 99, Fin 100]) (Floats [Fin 100, Fin 107]),
             Scatter ''SMA 20'' stamps2 (Floats [NaN, NaN])],
          Subheader ''Historical Data'',
          Dataframe ((''Datetime'', stamps2) # sample_columns),
          Subheader ''Technical Indicators'',
          Dataframe ((''Datetime'', stamps2) # indicator_columns),
          DownloadButton ''AAPL_data.csv'' enriched_frame]\<rparr>)"
proof -
  have g: "getitem enriched_frame ''Datetime'' = Inr stamps2"
    "getitem enriched_frame ''Open'' = Inr (Floats [Fin 100, Fin 101])"
    "getitem enriched_frame ''High'' = Inr (Floats [Fin 102, Fin 108])"
    "getitem enriched_frame ''Low'' = Inr (Floats [Fin 99, Fin 100])"
    "getitem enriched_frame ''Close'' = Inr (Floats [Fin 100, Fin 107])"
    "getitem enriched_frame ''Volume'' = Inr (Ints [1500, 2500])"
    "getitem enriched_frame ''SMA_20'' = Inr (Floats [NaN, NaN])"
    "getitem enriched_frame ''EMA_20'' = Inr (Floats [NaN, NaN])"
    "getitem enriched_frame ''RSI'' = Inr (Floats [NaN, NaN])"
    "getitem enriched_frame ''MACD'' = Inr (Floats [NaN, NaN])"
    "getitem enriched_frame ''MACD_Signal'' = Inr (Floats [NaN, NaN])"
    by (simp_all add: getitem_def enriched_frame_def sample_columns_def indicator_columns_def)
  have u: "upper ''1d'' = ''1D''"
    by code_simp
  show ?thesis
    by (simp add: main_dashboard_def seq_def lift_def st_def emit_def process_raw_frame
          enrich_normalized metrics_enriched stock_name_AAPL sample_selection_def
          price_trace_def indicator_step_def g u sample_columns_def indicator_columns_def)
qed

lemma comparison_sample:
  "length (requests s) = 1 \<Longrightarrow>
   comparison comparison_fails sample_selection data s =
     (Inr (),
      s\<lparr>requests := requests s @ [Period ''GOOGL'' ''1d'' ''1m''],
        page := page s @ [Error ''Error fetching data for GOOGL: Connection timed out'']\<rparr>)"
  by (simp add: comparison_def seq_def lift_def emit_def fetch_stock_data_eq
        comparison_fails_def sample_selection_def)

lemma main_content_sample:
  "requests s = [] \<Longrightarrow>
   main_content comparison_fails sample_ta sample_selection s =
     main_dashboard sample_ta sample_selection raw_frame
       (s\<lparr>requests := [Period ''AAPL'' ''1d'' ''1m'']\<rparr>)"
  by (simp add: main_content_def seq_def fetch_stock_data_eq comparison_fails_def
        sample_selection_def not_empty_raw)

lemma quote_sample:
  "stock_name symbol = Inr name \<Longrightarrow>
   watch_quote symbol raw_frame s =
     (Inr (), s\<lparr>page := page s @
        [SidebarMetric name [Fin 107, Fin 7, Fin (7881299347898369 / 1125899906842624)]]\<rparr>)"
proof -
  assume n: "stock_name symbol = Inr name"
  have c: "float_series normalized_frame ''Close'' = Inr [Fin 100, Fin 107]"
    and p: "float_series normalized_frame ''Open'' = Inr [Fin 100, Fin 101]"
    by (simp_all add: float_series_def getitem_def normalized_frame_def sample_columns_def)
  show ?thesis
    by (simp add: watch_quote_def seq_def lift_def st_def emit_def process_raw_frame c p n
          iloc_first iloc_last sub_7 pct_7 Let_def
          del: f64_sub.simps f64_div.simps f64_mul.simps)
qed

lemma watch_symbol_sample:
  assumes "stock_name symbol = Inr name" and "2 \<le> length (requests s)"
  shows "watch_symbol comparison_fails symbol s =
     (Inr (), s\<lparr>requests := requests s @ [Period symbol ''1d'' ''1m''],
        page := page s @
        [SidebarMetric name [Fin 107, Fin 7, Fin (7881299347898369 / 1125899906842624)]]\<rparr>)"
  using assms(2)
  by (simp add: watch_symbol_def seq_def fetch_stock_data_eq comparison_fails_def
        not_empty_raw quote_sample [OF assms(1)])

lemma watchlist_sample:
  assumes "\<forall>symbol \<in> set symbols. stock_name symbol = Inr (names symbol)"
      and "2 \<le> length (requests s)"
  shows "watchlist comparison_fails symbols s =
     (Inr (), s\<lparr>requests := requests s @ map (\<lambda>symbol. Period symbol ''1d'' ''1m'') symbols,
        page := page s @
          map (\<lambda>symbol. SidebarMetric (names symbol)
                 [Fin 107, Fin 7, Fin (7881299347898369 / 1125899906842624)]) symbols\<rparr>)"
  using assms
proof (induction symbols arbitrary: s)
  case Nil
  then show ?case by (simp add: lift_def)
next
  case (Cons symbol rest)
  from Cons.prems have n: "stock_name symbol = Inr (names symbol)" by simp
  let ?s1 = "s\<lparr>requests := requests s @ [Period symbol ''1d'' ''1m''],
        page := page s @
        [SidebarMetric (names symbol) [Fin 107, Fin 7, Fin (7881299347898369 / 1125899906842624)]]\<rparr>"
  have w: "watch_symbol comparison_fails symbol s = (Inr (), ?s1)"
    using n Cons.prems(2) by (rule watch_symbol_sample)
  have "2 \<le> length (requests ?s1)" using Cons.prems(2) by simp
  with Cons.IH [of ?s1] Cons.prems(1)
  have "watchlist comparison_fails rest ?s1 =
     (Inr (), ?s1\<lparr>requests := requests ?s1 @ map (\<lambda>symbol. Period symbol ''1d'' ''1m'') rest,
        page := page ?s1 @
          map (\<lambda>symbol. SidebarMetric (names symbol)
                 [Fin 107, Fin 7, Fin (7881299347898369 / 1125899906842624)]) rest\<rparr>)"
    by simp
  with w show ?case by (simp add: seq_def)
qed

lemma display_names:
  "\<forall>symbol \<in> set (map fst stock_names). stock_name symbol = Inr (display_name symbol)"
  "map display_name (map fst stock_names) = map snd stock_names"
  by (simp_all add: stock_names_def stock_name_def display_name_def)

lemma failed_comparison_leaves_the_rest:
  "render_pass comparison_fails sample_ta sample_selection start =
     (Inr (),
      \<lparr>requests =
         Period ''AAPL'' ''1d'' ''1m'' # Period ''GOOGL'' ''1d'' ''1m'' #
         map (\<lambda>symbol. Period symbol ''1d'' ''1m'') (map fst stock_names),
       page =
         [Title ''Real Time Stock Dashboard'',
          SidebarHeader ''Chart Parameters'',
          SidebarSubheader ''Compare Stocks'',
          SidebarCountdown 20,
          Metric ''Apple Inc. Last Price''
            [Fin 107, Fin 7, Fin (7881299347898369 / 1125899906842624)],
          Metric ''High'' [Fin 108],
          Metric ''Low'' [Fin 99],
          MetricInt ''Volume'' 4000,
          Subheader ''RSI Indicator'',
          LineChart [(''RSI'', Floats [NaN, NaN])],
          PlotlyChart ''Apple Inc. 1D Chart''
            [Candlestick stamps2 (Floats [Fin 100, Fin 101]) (Floats [Fin 102, Fin 108])
               (Floats [Fin 99, Fin 100]) (Floats [Fin 100, Fin 107]),
             Scatter ''SMA 20'' stamps2 (Floats [NaN, NaN])],
          Subheader ''Historical Data'',
          Dataframe ((''Datetime'', stamps2) # sample_columns),
          Subheader ''Technical Indicators'',
          Dataframe ((''Datetime'', stamps2) # indicator_columns),
          DownloadButton ''AAPL_data.csv'' enriched_frame,
          Error ''Error fetching data for GOOGL: Connection timed out'',
          SidebarHeader ''Real-Time Stock Prices''] @
         map (\<lambda>name. SidebarMetric name
                [Fin 107, Fin 7, Fin (7881299347898369 / 1125899906842624)])
           (map snd stock_names) @
         [SidebarSubheader ''About'',
          SidebarInfo ''This dashboard provides stock data and technical indicators for various time periods. Use the sidebar to customize your view.'']\<rparr>)"
proof -
  have c: "countdown (time_time comparison_fails j) (time_time comparison_fails k) = Inr 20"
    for j k
    by (simp add: comparison_fails_def countdown_same)
  have m: "map (\<lambda>symbol. SidebarMetric (display_name symbol)
                [Fin 107, Fin 7, Fin (7881299347898369 / 1125899906842624)])
             (map fst stock_names) =
           map (\<lambda>name. SidebarMetric name
                [Fin 107, Fin 7, Fin (7881299347898369 / 1125899906842624)])
             (map snd stock_names)"
  proof -
    have "map (\<lambda>symbol. SidebarMetric (display_name symbol)
                [Fin 107, Fin 7, Fin (7881299347898369 / 1125899906842624)])
             (map fst stock_names) =
          map (\<lambda>name. SidebarMetric name
                [Fin 107, Fin 7, Fin (7881299347898369 / 1125899906842624)])
             (map display_name (map fst stock_names))"
      by (simp add: comp_def)
    then show ?thesis
      by (simp only: display_names(2))
  qed
  show ?thesis
    by (simp add: render_pass_def seq_def st_def emit_def lift_def start_def c
          main_content_sample main_dashboard_sample comparison_sample
          watchlist_sample [OF display_names(1)] m
          del: map_map)
qed

end
